theory Spec2Isabelle
  imports Complex_Main "HOL-Library.AList" "HOL-Library.Log_Nat"
begin

section \<open>Errors\<close>

text \<open>
  The exceptions the code of \<^verbatim>\<open>lora_new.py\<close> can raise, by their Python names.
  \<open>RuntimeError\<close> is what the tensor library raises on a shape mismatch, \<open>ValueError\<close>
  what \<^verbatim>\<open>nn.Dropout\<close> raises for a probability above 1, \<open>AttributeError\<close> what reading
  an attribute that was never set raises, \<open>KeyError\<close> what reading a missing key of a
  dict raises, \<open>OverflowError\<close> what the division of two integers raises when the
  quotient is too large for a float.
\<close>

datatype error =
    AssertionError
  | AttributeError
  | RuntimeError
  | ValueError
  | ZeroDivisionError
  | NotImplementedError
  | KeyError
  | OverflowError

section \<open>Floating-point numbers\<close>

text \<open>
  The entries of the tensors of the layer are \<^verbatim>\<open>torch.float32\<close> numbers (IEEE 754
  binary32), the default type of \<^verbatim>\<open>nn.Linear\<close>: a finite number, given by its value, an
  infinity or a NaN. The two zeros are one value here: they compare equal, and the code
  divides by no entry. A finite entry is meant to be a number that binary32 has
  (\<open>is_float32\<close> below); every operation returns such a number.
\<close>

datatype float32 = Fin rat | PInf | NInf | NaN

text \<open>
  The power of 2 with the integer exponent \<open>e\<close>, and the exponent of a positive \<open>q\<close>:
  the greatest \<open>e\<close> with \<open>pow2 e \<le> q\<close>.
\<close>

definition pow2 :: "int \<Rightarrow> rat" where
  "pow2 e = (if 0 \<le> e then 2 ^ nat e else 1 / 2 ^ nat (- e))"

definition ilog2 :: "rat \<Rightarrow> int" where
  "ilog2 q = (if 1 \<le> q then bitlen \<lfloor>q\<rfloor> - 1 else - bitlen (\<lceil>1 / q\<rceil> - 1))"

text \<open>Rounding to the nearest integer, a tie going to the even one.\<close>

definition round_half_even :: "rat \<Rightarrow> int" where
  "round_half_even x =
     (let f = \<lfloor>x\<rfloor>; d = x - of_int f
      in if d < 1 / 2 then f else if 1 / 2 < d then f + 1 else if even f then f else f + 1)"

text \<open>
  Rounding to the nearest number of a binary format with \<open>p\<close> digits and least exponent
  \<open>emin\<close>, before any overflow: the unit in the last place of \<open>q\<close> is
  \<open>pow2 (e - p + 1)\<close> for the exponent \<open>e\<close> of \<open>q\<close>, taken as \<open>emin\<close> when it is
  below (the subnormal numbers).
\<close>

definition round_binary :: "nat \<Rightarrow> int \<Rightarrow> rat \<Rightarrow> rat" where
  "round_binary p emin q =
     (if q = 0 then 0
      else let e = max (ilog2 \<bar>q\<bar>) emin; ulp = pow2 (e - int p + 1)
           in of_int (round_half_even (q / ulp)) * ulp)"

text \<open>
  The binary32 result of an operation whose exact result is \<open>q\<close>: 24 digits, least
  exponent \<open>-126\<close>, and an infinity when the rounded number reaches \<open>pow2 128\<close>.
\<close>

definition round32 :: "rat \<Rightarrow> float32" where
  "round32 q =
     (let v = round_binary 24 (- 126) q
      in if pow2 128 \<le> \<bar>v\<bar> then (if 0 < v then PInf else NInf) else Fin v)"

text \<open>Addition, multiplication and negation of binary32 numbers.\<close>

fun fadd :: "float32 \<Rightarrow> float32 \<Rightarrow> float32" where
  "fadd (Fin x) (Fin y) = round32 (x + y)"
| "fadd NaN b = NaN"
| "fadd a NaN = NaN"
| "fadd PInf NInf = NaN"
| "fadd NInf PInf = NaN"
| "fadd PInf b = PInf"
| "fadd a PInf = PInf"
| "fadd NInf b = NInf"
| "fadd a NInf = NInf"

fun fmul :: "float32 \<Rightarrow> float32 \<Rightarrow> float32" where
  "fmul (Fin x) (Fin y) = round32 (x * y)"
| "fmul NaN b = NaN"
| "fmul a NaN = NaN"
| "fmul PInf (Fin y) = (if y = 0 then NaN else if 0 < y then PInf else NInf)"
| "fmul NInf (Fin y) = (if y = 0 then NaN else if 0 < y then NInf else PInf)"
| "fmul (Fin x) PInf = (if x = 0 then NaN else if 0 < x then PInf else NInf)"
| "fmul (Fin x) NInf = (if x = 0 then NaN else if 0 < x then NInf else PInf)"
| "fmul PInf PInf = PInf"
| "fmul NInf NInf = PInf"
| "fmul PInf NInf = NInf"
| "fmul NInf PInf = NInf"

fun fneg :: "float32 \<Rightarrow> float32" where
  "fneg (Fin x) = Fin (- x)"
| "fneg PInf = NInf"
| "fneg NInf = PInf"
| "fneg NaN = NaN"

fun is_finite :: "float32 \<Rightarrow> bool" where
  "is_finite (Fin x) = True"
| "is_finite PInf = False"
| "is_finite NInf = False"
| "is_finite NaN = False"

text \<open>A value that binary32 has: rounding leaves it as it is.\<close>

fun is_float32 :: "float32 \<Rightarrow> bool" where
  "is_float32 (Fin x) = (round32 x = Fin x)"
| "is_float32 PInf = True"
| "is_float32 NInf = True"
| "is_float32 NaN = True"

text \<open>
  \<^verbatim>\<open>a / b\<close> on two Python integers: the quotient rounded to a \<^verbatim>\<open>float\<close> (binary64: 53
  digits, least exponent \<open>-1022\<close>), \<^verbatim>\<open>OverflowError\<close> when it reaches \<open>pow2 1024\<close>.
\<close>

definition py_truediv :: "int \<Rightarrow> int \<Rightarrow> error + rat" where
  "py_truediv a b =
     (if b = 0 then Inl ZeroDivisionError
      else let q = round_binary 53 (- 1022) (of_int a / of_int b)
           in if pow2 1024 \<le> \<bar>q\<bar> then Inl OverflowError else Inr q)"

section \<open>Tensors\<close>

text \<open>
  A two-dimensional tensor of binary32 numbers: its shape and its rows. A leading batch
  dimension is not modelled: \<^verbatim>\<open>F.linear\<close> and \<^verbatim>\<open>F.conv1d\<close> treat every element of a
  batch alike.
\<close>

datatype tensor = Tensor (nrows: nat) (ncols: nat) (elems: "float32 list list")

definition wf_tensor :: "tensor \<Rightarrow> bool" where
  "wf_tensor t \<longleftrightarrow>
     length (elems t) = nrows t \<and> list_all (\<lambda>row. length row = ncols t) (elems t)"

definition entry :: "tensor \<Rightarrow> nat \<Rightarrow> nat \<Rightarrow> float32" where
  "entry t i j = elems t ! i ! j"

definition full :: "nat \<Rightarrow> nat \<Rightarrow> (nat \<Rightarrow> nat \<Rightarrow> float32) \<Rightarrow> tensor" where
  "full m n f = Tensor m n (map (\<lambda>i. map (\<lambda>j. f i j) [0..<n]) [0..<m])"

text \<open>\<^verbatim>\<open>w.T\<close> and \<^verbatim>\<open>t.transpose(-2, -1)\<close>.\<close>

definition transpose_t :: "tensor \<Rightarrow> tensor" where
  "transpose_t t =
     Tensor (ncols t) (nrows t) (map (\<lambda>j. map (\<lambda>row. row ! j) (elems t)) [0..<ncols t])"

text \<open>
  The sum of the products of two rows, every product and every partial sum rounded, from
  left to right. The order in which the library adds is its own; the facts below hold
  for every order: they are about rows of zeros, sums of one product or of small
  integers, and a sum that is computed twice.
\<close>

definition dot :: "float32 list \<Rightarrow> float32 list \<Rightarrow> float32" where
  "dot xs ys = foldl fadd (Fin 0) (map2 fmul xs ys)"

text \<open>
  \<^verbatim>\<open>F.linear(x, w, bias)\<close>: \<open>x\<close> is \<open>n \<times> i\<close>, \<open>w\<close> is \<open>o \<times> i\<close>, the result
  \<open>x \<cdot> w\<^sup>T + bias\<close> is \<open>n \<times> o\<close>.
\<close>

definition F_linear :: "tensor \<Rightarrow> tensor \<Rightarrow> float32 list option \<Rightarrow> error + tensor" where
  "F_linear x w b =
     (if ncols x \<noteq> ncols w then Inl RuntimeError
      else case b of
        None \<Rightarrow>
          Inr (Tensor (nrows x) (nrows w)
                 (map (\<lambda>xr. map (\<lambda>wr. dot xr wr) (elems w)) (elems x)))
      | Some bv \<Rightarrow>
          if length bv \<noteq> nrows w then Inl RuntimeError
          else Inr (Tensor (nrows x) (nrows w)
                 (map (\<lambda>xr. map2 (\<lambda>wr bo. fadd (dot xr wr) bo) (elems w) bv) (elems x))))"

text \<open>
  \<^verbatim>\<open>F.conv1d(inp, w.unsqueeze(-1))\<close> with a kernel of width 1: \<open>inp\<close> has \<open>c\<close>
  channels of length \<open>l\<close>, \<open>w\<close> is \<open>o \<times> c\<close>, the result has \<open>o\<close> channels of length
  \<open>l\<close>, channel \<open>o\<close> at position \<open>p\<close> being \<open>\<Sum>k. w[o][k] * inp[k][p]\<close>. The
  library refuses an input whose number of channels is not that of the kernel, an input
  of length 0 (shorter than the kernel) and a kernel without output channels.
\<close>

definition F_conv1d :: "tensor \<Rightarrow> tensor \<Rightarrow> error + tensor" where
  "F_conv1d inp w =
     (if nrows w = 0 then Inl RuntimeError
      else if nrows inp \<noteq> ncols w then Inl RuntimeError
      else if ncols inp = 0 then Inl RuntimeError
      else Inr (Tensor (nrows w) (ncols inp)
             (map (\<lambda>wr. map (\<lambda>p. dot wr (map (\<lambda>row. row ! p) (elems inp))) [0..<ncols inp])
                (elems w))))"

text \<open>
  \<^verbatim>\<open>sign * t\<close> for an integer \<open>sign\<close>, and \<^verbatim>\<open>t * s\<close> for a Python \<^verbatim>\<open>float\<close>
  \<open>s\<close>: the number is converted to binary32 and multiplied with every entry.
\<close>

definition smul :: "int \<Rightarrow> tensor \<Rightarrow> tensor" where
  "smul c t = Tensor (nrows t) (ncols t) (map (map (\<lambda>v. fmul (round32 (of_int c)) v)) (elems t))"

definition tmul :: "tensor \<Rightarrow> rat \<Rightarrow> tensor" where
  "tmul t s = Tensor (nrows t) (ncols t) (map (map (\<lambda>v. fmul v (round32 s))) (elems t))"

text \<open>
  Broadcasting \<open>d\<close> to the shape \<open>m \<times> n\<close> of the target of an in-place operation: each
  dimension of \<open>d\<close> is the target's or 1.
\<close>

definition broadcast_to :: "tensor \<Rightarrow> nat \<Rightarrow> nat \<Rightarrow> tensor option" where
  "broadcast_to d m n =
     (if (nrows d = m \<or> nrows d = 1) \<and> (ncols d = n \<or> ncols d = 1)
      then Some (full m n (\<lambda>i j. entry d (if nrows d = m then i else 0)
                                          (if ncols d = n then j else 0)))
      else None)"

text \<open>\<^verbatim>\<open>w += d\<close>, in place: the shape of \<open>w\<close> stays.\<close>

definition iadd :: "tensor \<Rightarrow> tensor \<Rightarrow> error + tensor" where
  "iadd w d =
     (case broadcast_to d (nrows w) (ncols w) of
        None \<Rightarrow> Inl RuntimeError
      | Some d' \<Rightarrow>
          Inr (Tensor (nrows w) (ncols w) (map2 (map2 fadd) (elems w) (elems d'))))"

section \<open>The layer\<close>

text \<open>
  The fields of a \<^verbatim>\<open>MergedLinearFull\<close>: those of \<^verbatim>\<open>nn.Linear\<close> (\<open>in_features\<close>,
  \<open>out_features\<close>, \<open>weight\<close>, \<open>bias\<close>, \<open>training\<close>), those of \<^verbatim>\<open>LoRALayerFull\<close> and
  its own. \<open>lora_A\<close>, \<open>lora_B\<close> and \<open>scaling\<close> are attributes that exist only when the
  constructor set them: \<open>None\<close> is the missing attribute. \<open>scaling\<close> is a Python
  \<^verbatim>\<open>float\<close>, by its value.
\<close>

record layer =
  in_features :: nat
  out_features :: nat
  weight :: tensor
  weight_requires_grad :: bool
  bias :: "float32 list option"
  training :: bool
  r :: int
  lora_alpha :: int
  lora_dropout :: real
  merged :: bool
  merge_weights :: bool
  enable_lora :: "bool list"
  fan_in_fan_out :: bool
  lora_A :: "tensor option"
  lora_B :: "tensor option"
  scaling :: "rat option"

text \<open>Python's \<^verbatim>\<open>any\<close> on a list of booleans.\<close>

definition any_of :: "bool list \<Rightarrow> bool" where
  "any_of bs = list_ex (\<lambda>b. b) bs"

text \<open>
  \<^verbatim>\<open>MergedLinearFull.__init__\<close>. The random initial values that
  \<^verbatim>\<open>reset_parameters\<close> draws are parameters: \<open>w_rand\<close> for the weight, \<open>b_rand\<close> for
  the bias, \<open>a_rand\<close> for \<open>lora_A\<close>; \<open>lora_B\<close> is zero.
\<close>

definition init ::
  "nat \<Rightarrow> nat \<Rightarrow> int \<Rightarrow> int \<Rightarrow> real \<Rightarrow> bool list \<Rightarrow> bool \<Rightarrow> bool \<Rightarrow> bool \<Rightarrow>
   (nat \<Rightarrow> nat \<Rightarrow> float32) \<Rightarrow> (nat \<Rightarrow> float32) \<Rightarrow> (nat \<Rightarrow> nat \<Rightarrow> float32) \<Rightarrow> error + layer" where
  "init n_in n_out rk alpha dropout enable fifo mw use_bias w_rand b_rand a_rand =
     (if dropout > 0 \<and> dropout > 1 then Inl ValueError
      else if length enable = 0 then Inl ZeroDivisionError
      else if n_out mod length enable \<noteq> 0 then Inl AssertionError
      else
        let adapt = (rk > 0 \<and> any_of enable);
            w = full n_out n_in w_rand
        in case (if adapt then map_sum id Some (py_truediv alpha rk) else Inr None) of
             Inl e \<Rightarrow> Inl e
           | Inr sc \<Rightarrow>
               Inr \<lparr> in_features = n_in,
                     out_features = n_out,
                     weight = (if fifo then transpose_t w else w),
                     weight_requires_grad = \<not> adapt,
                     bias = (if use_bias then Some (map b_rand [0..<n_out]) else None),
                     training = True,
                     r = rk,
                     lora_alpha = alpha,
                     lora_dropout = dropout,
                     merged = False,
                     merge_weights = mw,
                     enable_lora = enable,
                     fan_in_fan_out = fifo,
                     lora_A = (if adapt then Some (full (nat rk) n_in a_rand) else None),
                     lora_B = (if adapt then Some (full n_out (nat rk) (\<lambda>i j. Fin 0)) else None),
                     scaling = sc \<rparr>)"

text \<open>The local function \<^verbatim>\<open>T\<close> of \<^verbatim>\<open>train\<close> and \<^verbatim>\<open>forward\<close>.\<close>

definition T :: "layer \<Rightarrow> tensor \<Rightarrow> tensor" where
  "T L w = (if fan_in_fan_out L then transpose_t w else w)"

text \<open>
  The body of the inner \<^verbatim>\<open>if\<close> of \<^verbatim>\<open>train\<close>, in two steps: the value of
  \<^verbatim>\<open>sign * delta_w * self.scaling\<close>, and the in-place update
  \<^verbatim>\<open>self.weight.data += sign * delta_w * self.scaling\<close>, whose result is the new value
  of the weight; when a step raises, the weight is untouched.
\<close>

definition scaled_delta :: "bool \<Rightarrow> layer \<Rightarrow> error + tensor" where
  "scaled_delta mode L =
     (case lora_A L of None \<Rightarrow> Inl AttributeError | Some A \<Rightarrow>
     (case lora_B L of None \<Rightarrow> Inl AttributeError | Some B \<Rightarrow>
     (case F_conv1d A B of Inl e \<Rightarrow> Inl e | Inr delta_w \<Rightarrow>
     (let sign = (if mode then - 1 else 1) in
     (case scaling L of None \<Rightarrow> Inl AttributeError | Some s \<Rightarrow>
        Inr (tmul (smul sign delta_w) s))))))"

definition update_weight :: "bool \<Rightarrow> layer \<Rightarrow> error + tensor" where
  "update_weight mode L =
     (case scaled_delta mode L of Inl e \<Rightarrow> Inl e | Inr d \<Rightarrow> iadd (weight L) d)"

text \<open>
  \<^verbatim>\<open>MergedLinearFull.train\<close>. The layer lives on when the method raises, so the
  result is the exception raised, if any, and the layer as the call leaves it.
\<close>

definition train :: "bool \<Rightarrow> layer \<Rightarrow> error option \<times> layer" where
  "train mode L0 =
     (let L = L0\<lparr>training := mode\<rparr>;
          should = (if mode then merged L else \<not> merged L)
      in if merge_weights L \<and> should then
           if r L > 0 \<and> any_of (enable_lora L) then
             (case update_weight mode L of
                Inl e \<Rightarrow> (Some e, L)
              | Inr w' \<Rightarrow> (None, L\<lparr>weight := w', merged := \<not> mode\<rparr>))
           else (None, L\<lparr>merged := \<not> mode\<rparr>)
         else (None, L))"

text \<open>
  \<^verbatim>\<open>self.lora_dropout(x)\<close>: the identity when the rate is not positive, else an
  \<^verbatim>\<open>nn.Dropout\<close>, which is the identity outside training mode. \<open>dropout_fn\<close> is the
  realization of the random zeroing for this call.
\<close>

definition apply_dropout :: "(tensor \<Rightarrow> tensor) \<Rightarrow> layer \<Rightarrow> tensor \<Rightarrow> tensor" where
  "apply_dropout dropout_fn L x = (if lora_dropout L > 0 \<and> training L then dropout_fn x else x)"

text \<open>
  The low-rank branch of \<^verbatim>\<open>forward\<close>: the value \<^verbatim>\<open>after_B * self.scaling\<close> that is
  added to the result.
\<close>

definition lora_branch :: "(tensor \<Rightarrow> tensor) \<Rightarrow> layer \<Rightarrow> tensor \<Rightarrow> error + tensor" where
  "lora_branch dropout_fn L x =
     (case lora_A L of None \<Rightarrow> Inl AttributeError | Some A \<Rightarrow>
     (case F_linear (apply_dropout dropout_fn L x) A None of Inl e \<Rightarrow> Inl e | Inr after_A \<Rightarrow>
     (case lora_B L of None \<Rightarrow> Inl AttributeError | Some B \<Rightarrow>
     (case F_conv1d (transpose_t after_A) B of Inl e \<Rightarrow> Inl e | Inr c \<Rightarrow>
     (case scaling L of None \<Rightarrow> Inl AttributeError | Some s \<Rightarrow>
        Inr (tmul (transpose_t c) s))))))"

text \<open>\<^verbatim>\<open>MergedLinearFull.forward\<close>, on a two-dimensional input.\<close>

definition forward :: "(tensor \<Rightarrow> tensor) \<Rightarrow> layer \<Rightarrow> tensor \<Rightarrow> error + tensor" where
  "forward dropout_fn L x =
     (if merged L then F_linear x (T L (weight L)) (bias L)
      else
        (case F_linear x (T L (weight L)) (bias L) of Inl e \<Rightarrow> Inl e | Inr result \<Rightarrow>
           if r L > 0 then
             (case lora_branch dropout_fn L x of Inl e \<Rightarrow> Inl e | Inr upd \<Rightarrow> iadd result upd)
           else Inr result))"

text \<open>
  What the constructor establishes and training keeps: the partitions divide the outputs
  evenly, the tensors have their shapes, and the factors and the scaling exist exactly
  when the rank is positive and a partition is enabled.
\<close>

definition layer_inv :: "layer \<Rightarrow> bool" where
  "layer_inv L \<longleftrightarrow>
     enable_lora L \<noteq> [] \<and>
     out_features L mod length (enable_lora L) = 0 \<and>
     wf_tensor (weight L) \<and>
     nrows (weight L) = (if fan_in_fan_out L then in_features L else out_features L) \<and>
     ncols (weight L) = (if fan_in_fan_out L then out_features L else in_features L) \<and>
     (case bias L of None \<Rightarrow> True | Some bv \<Rightarrow> length bv = out_features L) \<and>
     (if r L > 0 \<and> any_of (enable_lora L) then
        (case lora_A L of None \<Rightarrow> False
         | Some A \<Rightarrow> wf_tensor A \<and> nrows A = nat (r L) \<and> ncols A = in_features L) \<and>
        (case lora_B L of None \<Rightarrow> False
         | Some B \<Rightarrow> wf_tensor B \<and> nrows B = out_features L \<and> ncols B = nat (r L)) \<and>
        scaling L \<noteq> None
      else lora_A L = None \<and> lora_B L = None \<and> scaling L = None)"

text \<open>A sequence of calls of \<^verbatim>\<open>train\<close>, each on the layer the call before left.\<close>

fun train_seq :: "bool list \<Rightarrow> layer \<Rightarrow> layer" where
  "train_seq [] L = L"
| "train_seq (mode # modes) L = train_seq modes (snd (train mode L))"

text \<open>
  Tensors of numbers that binary32 has, tensors of finite numbers, and an in-place
  addition \<^verbatim>\<open>w += d\<close> in which no sum is rounded: where \<open>d\<close> fits \<open>w\<close>, both
  entries are finite and their exact sum is a binary32 number.
\<close>

definition float32_tensor :: "tensor \<Rightarrow> bool" where
  "float32_tensor t = list_all (list_all is_float32) (elems t)"

definition finite_tensor :: "tensor \<Rightarrow> bool" where
  "finite_tensor t = list_all (list_all is_finite) (elems t)"

fun exact_add :: "float32 \<Rightarrow> float32 \<Rightarrow> bool" where
  "exact_add (Fin x) (Fin y) = (round32 (x + y) = Fin (x + y))"
| "exact_add a b = False"

definition exact_iadd :: "tensor \<Rightarrow> tensor \<Rightarrow> bool" where
  "exact_iadd w d =
     (case broadcast_to d (nrows w) (ncols w) of
        None \<Rightarrow> True
      | Some d' \<Rightarrow> list_all2 (list_all2 exact_add) (elems w) (elems d'))"

text \<open>
  The merge of \<^verbatim>\<open>train(False)\<close> rounds no sum: where the update
  \<^verbatim>\<open>sign * delta_w * self.scaling\<close> is computed and fits the weight, its addition
  to the weight is exact.
\<close>

definition merge_exact :: "layer \<Rightarrow> bool" where
  "merge_exact L =
     (case scaled_delta False L of Inl e \<Rightarrow> True | Inr d \<Rightarrow> exact_iadd (weight L) d)"

section \<open>Names of parameters\<close>

text \<open>\<^verbatim>\<open>s.startswith(p)\<close> and \<^verbatim>\<open>p in s\<close> on strings.\<close>

fun starts_with :: "string \<Rightarrow> string \<Rightarrow> bool" where
  "starts_with s [] = True"
| "starts_with [] (p # ps) = False"
| "starts_with (c # cs) (p # ps) = (c = p \<and> starts_with cs ps)"

fun contains :: "string \<Rightarrow> string \<Rightarrow> bool" where
  "contains [] p = (p = [])"
| "contains (c # cs) p = (starts_with (c # cs) p \<or> contains cs p)"

text \<open>
  \<^verbatim>\<open>s.split(p)[0]\<close> for a non-empty separator \<open>p\<close>: the text before the first
  occurrence of \<open>p\<close>, all of \<open>s\<close> when there is none.
\<close>

fun split_first :: "string \<Rightarrow> string \<Rightarrow> string" where
  "split_first [] p = []"
| "split_first (c # cs) p = (if starts_with (c # cs) p then [] else c # split_first cs p)"

section \<open>Marking the trainable parameters\<close>

text \<open>
  A model as \<^verbatim>\<open>mark_only_lora_as_trainable\<close> sees it: \<^verbatim>\<open>named_parameters()\<close> gives names
  and parameters, \<^verbatim>\<open>modules()\<close> the modules; a parameter is an object, here its identity,
  and \<open>requires_grad\<close> holds the flag of each. The \<^verbatim>\<open>bias\<close> attribute of a module is
  missing, \<^verbatim>\<open>None\<close> or a parameter.
\<close>

datatype bias_attr = NoAttr | IsNone | Param nat

record module =
  is_LoRALayerFull :: bool
  module_bias :: bias_attr

record model =
  named_parameters :: "(string \<times> nat) list"
  modules :: "module list"
  requires_grad :: "nat \<Rightarrow> bool"

text \<open>The first loop: \<^verbatim>\<open>if 'lora_' not in n: p.requires_grad = False\<close>.\<close>

fun freeze_loop :: "(string \<times> nat) list \<Rightarrow> (nat \<Rightarrow> bool) \<Rightarrow> (nat \<Rightarrow> bool)" where
  "freeze_loop [] g = g"
| "freeze_loop ((n, p) # ps) g =
     freeze_loop ps (if \<not> contains n ''lora_'' then g(p := False) else g)"

text \<open>The loop of \<^verbatim>\<open>bias == 'all'\<close>: \<^verbatim>\<open>if 'bias' in n: p.requires_grad = True\<close>.\<close>

fun all_bias_loop :: "(string \<times> nat) list \<Rightarrow> (nat \<Rightarrow> bool) \<Rightarrow> (nat \<Rightarrow> bool)" where
  "all_bias_loop [] g = g"
| "all_bias_loop ((n, p) # ps) g =
     all_bias_loop ps (if contains n ''bias'' then g(p := True) else g)"

text \<open>The loop of \<^verbatim>\<open>bias == 'lora_only'\<close> over the modules.\<close>

fun lora_bias_loop :: "module list \<Rightarrow> (nat \<Rightarrow> bool) \<Rightarrow> (nat \<Rightarrow> bool)" where
  "lora_bias_loop [] g = g"
| "lora_bias_loop (m # ms) g =
     lora_bias_loop ms
       (if is_LoRALayerFull m then
          (case module_bias m of NoAttr \<Rightarrow> g | IsNone \<Rightarrow> g | Param p \<Rightarrow> g(p := True))
        else g)"

text \<open>
  \<^verbatim>\<open>mark_only_lora_as_trainable\<close>. The result is the exception raised, if any, and the
  model as the call leaves it: the first loop has run when the policy is rejected.
\<close>

definition mark_only_lora_as_trainable :: "model \<Rightarrow> string \<Rightarrow> error option \<times> model" where
  "mark_only_lora_as_trainable M bias_policy =
     (let M1 = M\<lparr>requires_grad := freeze_loop (named_parameters M) (requires_grad M)\<rparr>
      in if bias_policy = ''none'' then (None, M1)
         else if bias_policy = ''all'' then
           (None, M1\<lparr>requires_grad := all_bias_loop (named_parameters M1) (requires_grad M1)\<rparr>)
         else if bias_policy = ''lora_only'' then
           (None, M1\<lparr>requires_grad := lora_bias_loop (modules M1) (requires_grad M1)\<rparr>)
         else (Some NotImplementedError, M1))"

section \<open>Selecting the entries of a checkpoint\<close>

text \<open>
  A state dict is a list of keys and values in the order of insertion; \<^verbatim>\<open>d[k] = v\<close> is
  \<^const>\<open>AList.update\<close>, which overwrites the value of a key that is there and appends a
  new key. The dict comprehension \<^verbatim>\<open>{k: d[k] for k in d if P(k)}\<close> inserts the selected
  keys one after the other.
\<close>

fun dict_comp ::
  "(string \<Rightarrow> bool) \<Rightarrow> (string \<times> 'v) list \<Rightarrow> string list \<Rightarrow> (string \<times> 'v) list \<Rightarrow>
   error + (string \<times> 'v) list" where
  "dict_comp P d [] acc = Inr acc"
| "dict_comp P d (k # ks) acc =
     (if P k then
        (case map_of d k of
           None \<Rightarrow> Inl KeyError
         | Some v \<Rightarrow> dict_comp P d ks (AList.update k v acc))
      else dict_comp P d ks acc)"

text \<open>The loop of \<^verbatim>\<open>bias == 'lora_only'\<close> in \<^verbatim>\<open>lora_state_dict\<close>.\<close>

fun lora_only_loop ::
  "(string \<times> 'v) list \<Rightarrow> string list \<Rightarrow> (string \<times> 'v) list \<Rightarrow> error + (string \<times> 'v) list" where
  "lora_only_loop d [] to_return = Inr to_return"
| "lora_only_loop d (k # ks) to_return =
     (if contains k ''lora_'' then
        (case map_of d k of
           None \<Rightarrow> Inl KeyError
         | Some v \<Rightarrow>
             (let to_return1 = AList.update k v to_return;
                  bias_name = split_first k ''lora_'' @ ''bias''
              in case map_of d bias_name of
                   None \<Rightarrow> lora_only_loop d ks to_return1
                 | Some bv \<Rightarrow> lora_only_loop d ks (AList.update bias_name bv to_return1)))
      else lora_only_loop d ks to_return)"

text \<open>\<^verbatim>\<open>lora_state_dict\<close>, on the state dict of the model.\<close>

definition lora_state_dict :: "(string \<times> 'v) list \<Rightarrow> string \<Rightarrow> error + (string \<times> 'v) list" where
  "lora_state_dict my_state_dict bias_policy =
     (if bias_policy = ''none'' then
        dict_comp (\<lambda>k. contains k ''lora_'') my_state_dict (map fst my_state_dict) []
      else if bias_policy = ''all'' then
        dict_comp (\<lambda>k. contains k ''lora_'' \<or> contains k ''bias'') my_state_dict
          (map fst my_state_dict) []
      else if bias_policy = ''lora_only'' then
        lora_only_loop my_state_dict (map fst my_state_dict) []
      else Inl NotImplementedError)"

section \<open>The context manager\<close>

text \<open>
  The global state \<^verbatim>\<open>lora\<close> works on: the class that the name
  \<^verbatim>\<open>llama.CausalSelfAttention\<close> refers to, and the class attribute
  \<^verbatim>\<open>CausalSelfAttention.lora_config\<close>.
\<close>

datatype attention_class = Baseline_CausalSelfAttention | LoRA_CausalSelfAttention

record LoRAConfig =
  config_r :: real
  config_alpha :: real
  config_dropout :: real

record globals =
  llama_CausalSelfAttention :: attention_class
  lora_config :: "LoRAConfig option"

text \<open>
  \<^verbatim>\<open>lora\<close> is a generator under \<^verbatim>\<open>@contextmanager\<close>: the \<^verbatim>\<open>with\<close> statement runs it
  to its \<^verbatim>\<open>yield\<close>, then the body, then resumes it. When the body raises, the exception
  is raised again inside the generator at the \<^verbatim>\<open>yield\<close>; no \<^verbatim>\<open>try\<close> encloses the
  \<^verbatim>\<open>yield\<close>, so the exception leaves the generator there and the statements after the
  \<^verbatim>\<open>yield\<close> do not run. \<open>body\<close> is the block of the \<^verbatim>\<open>with\<close> statement: it
  returns the exception it raises, if any, and the global state it leaves.
\<close>

definition lora ::
  "real \<Rightarrow> real \<Rightarrow> real \<Rightarrow> bool \<Rightarrow> (globals \<Rightarrow> error option \<times> globals) \<Rightarrow> globals \<Rightarrow>
   error option \<times> globals" where
  "lora rk alpha dropout enabled body g =
     (if \<not> enabled then body g
      else
        let g1 = g\<lparr>lora_config :=
                     Some \<lparr>config_r = rk, config_alpha = alpha, config_dropout = dropout\<rparr>\<rparr>;
            causal_self_attention = llama_CausalSelfAttention g1;
            g2 = g1\<lparr>llama_CausalSelfAttention := LoRA_CausalSelfAttention\<rparr>
        in case body g2 of
             (Some e, g3) \<Rightarrow> (Some e, g3)
           | (None, g3) \<Rightarrow>
               (None, g3\<lparr>llama_CausalSelfAttention := causal_self_attention,
                          lora_config := None\<rparr>))"

section \<open>The owning layer of a key, as the specification has it\<close>





section \<open>Auxiliary definitions and example layers\<close>

text \<open>
  A layer as the attention block builds it (\<^verbatim>\<open>enable_lora=[True, False, True]\<close>), with 2
  inputs, 3 outputs and rank 1, after some steps of training have moved \<open>lora_B\<close> away
  from zero.
\<close>

definition example_layer :: layer where
  "example_layer =
     \<lparr> in_features = 2, out_features = 3,
       weight = Tensor 3 2 [[Fin 1, Fin 2], [Fin 3, Fin 4], [Fin 5, Fin 6]],
       weight_requires_grad = False,
       bias = Some [Fin 1, Fin 1, Fin 1],
       training = True, r = 1, lora_alpha = 2, lora_dropout = 0,
       merged = False, merge_weights = True,
       enable_lora = [True, False, True], fan_in_fan_out = False,
       lora_A = Some (Tensor 1 2 [[Fin 1, Fin 2]]),
       lora_B = Some (Tensor 3 1 [[Fin 1], [Fin 1], [Fin 1]]),
       scaling = Some 2 \<rparr>"

text \<open>The same kind of layer with \<^verbatim>\<open>fan_in_fan_out=True\<close>, 2 inputs and 2 outputs.\<close>

definition fan_layer :: layer where
  "fan_layer =
     \<lparr> in_features = 2, out_features = 2,
       weight = Tensor 2 2 [[Fin 0, Fin 0], [Fin 0, Fin 0]],
       weight_requires_grad = False,
       bias = None,
       training = True, r = 1, lora_alpha = 1, lora_dropout = 0,
       merged = False, merge_weights = True,
       enable_lora = [True], fan_in_fan_out = True,
       lora_A = Some (Tensor 1 2 [[Fin 1, Fin 0]]),
       lora_B = Some (Tensor 2 1 [[Fin 0], [Fin 1]]),
       scaling = Some 1 \<rparr>"

text \<open>
  A layer with one input, one output and rank 1 whose weight is 1 and whose factors are
  \<open>pow2 24 = 16777216\<close> and 1: the sum \<open>16777217\<close> is no binary32 number.
\<close>

definition rounding_layer :: layer where
  "rounding_layer =
     \<lparr> in_features = 1, out_features = 1,
       weight = Tensor 1 1 [[Fin 1]],
       weight_requires_grad = False,
       bias = None,
       training = True, r = 1, lora_alpha = 1, lora_dropout = 0,
       merged = False, merge_weights = True,
       enable_lora = [True], fan_in_fan_out = False,
       lora_A = Some (Tensor 1 1 [[Fin 16777216]]),
       lora_B = Some (Tensor 1 1 [[Fin 1]]),
       scaling = Some 1 \<rparr>"

text \<open>
  What \<^verbatim>\<open>MergedLinearFull(1, 1, r=1, bias=False)\<close> builds, \<^verbatim>\<open>enable_lora\<close> being
  \<^verbatim>\<open>[False]\<close> by default, and what \<^verbatim>\<open>MergedLinearFull(1, 1, bias=False)\<close> builds, the
  rank being 0 by default; \<open>draw_weight\<close>, \<open>draw_bias\<close> and \<open>draw_A\<close> are the
  initial values drawn.
\<close>

definition draw_weight :: "nat \<Rightarrow> nat \<Rightarrow> float32" where
  "draw_weight i j = Fin 2"

definition draw_bias :: "nat \<Rightarrow> float32" where
  "draw_bias i = Fin 0"

definition draw_A :: "nat \<Rightarrow> nat \<Rightarrow> float32" where
  "draw_A i j = Fin 0"

definition no_partition_layer :: layer where
  "no_partition_layer =
     \<lparr> in_features = 1, out_features = 1,
       weight = Tensor 1 1 [[Fin 2]],
       weight_requires_grad = True,
       bias = None,
       training = True, r = 1, lora_alpha = 1, lora_dropout = 0,
       merged = False, merge_weights = True,
       enable_lora = [False], fan_in_fan_out = False,
       lora_A = None, lora_B = None, scaling = None \<rparr>"

definition rank0_layer :: layer where
  "rank0_layer = no_partition_layer\<lparr>r := 0\<rparr>"

text \<open>
  A model whose factor \<open>lora_A\<close> was frozen before the call (parameter 1), as
  \<^verbatim>\<open>requires_grad_(False)\<close> on it does.
\<close>

definition frozen_model :: model where
  "frozen_model =
     \<lparr> named_parameters = [(''c_attn.weight'', 0), (''c_attn.lora_A'', 1), (''c_attn.lora_B'', 2)],
       modules = [\<lparr>is_LoRALayerFull = True, module_bias = IsNone\<rparr>],
       requires_grad = (\<lambda>p. p \<noteq> 1) \<rparr>"

text \<open>
  The name under which \<^verbatim>\<open>lora_state_dict\<close> looks for the bias that goes with the key
  \<open>k\<close>, and the keys that the loop of \<^verbatim>\<open>'lora_only'\<close> has selected after the keys
  \<open>ks\<close>.
\<close>

definition bias_name :: "string \<Rightarrow> string" where
  "bias_name k = split_first k ''lora_'' @ ''bias''"

definition lora_only_keys :: "(string \<times> 'v) list \<Rightarrow> string list \<Rightarrow> string set" where
  "lora_only_keys d ks =
     {k \<in> set ks. contains k ''lora_''} \<union>
     {bias_name k | k. k \<in> set ks \<and> contains k ''lora_'' \<and> bias_name k \<in> dom (map_of d)}"

text \<open>
  The state dict of one attention block and of a feed-forward block with a bias, and a
  state dict in which a module on the path of a factor is itself called \<^verbatim>\<open>lora_b\<close>.
\<close>

definition block_state_dict :: "(string \<times> nat) list" where
  "block_state_dict =
     [(''h.0.attn.c_attn.weight'', 1), (''h.0.attn.c_attn.bias'', 2),
      (''h.0.attn.c_attn.lora_A'', 3), (''h.0.attn.c_attn.lora_B'', 4), (''h.0.mlp.bias'', 5)]"


text \<open>
  The global state before \<^verbatim>\<open>lora\<close> is entered, a block that raises and a block that
  returns.
\<close>

definition initial_globals :: globals where
  "initial_globals =
     \<lparr> llama_CausalSelfAttention = Baseline_CausalSelfAttention, lora_config = None \<rparr>"

definition raising_body :: "globals \<Rightarrow> error option \<times> globals" where
  "raising_body g = (Some RuntimeError, g)"

definition returning_body :: "globals \<Rightarrow> error option \<times> globals" where
  "returning_body g = (None, g)"

section \<open>Facts about floating-point numbers\<close>

lemma pow2_pos: "0 < pow2 e"
  by (simp add: pow2_def)

text \<open>Rounding is symmetric: the sign of a number is not looked at.\<close>

lemma round_half_even_minus: "round_half_even (- x) = - round_half_even x"
proof (cases "x = of_int \<lfloor>x\<rfloor>")
  case True
  then obtain n where x: "x = of_int n" by blast
  show ?thesis unfolding x by (simp add: round_half_even_def Let_def flip: of_int_minus)
next
  case False
  have fl: "\<lfloor>- x\<rfloor> = - \<lfloor>x\<rfloor> - 1"
    using False by (simp add: floor_minus ceiling_altdef)
  have d: "0 < x - of_int \<lfloor>x\<rfloor>" using False of_int_floor_le[of x] by linarith
  show ?thesis
    unfolding round_half_even_def Let_def fl
    by (auto simp: algebra_simps)
qed

lemma round_binary_minus: "round_binary p emin (- q) = - round_binary p emin q"
  by (simp add: round_binary_def Let_def round_half_even_minus)

lemma round32_minus: "round32 (- q) = fneg (round32 q)"
  using pow2_pos[of 128] by (auto simp: round32_def Let_def round_binary_minus)

lemma round32_0: "round32 0 = Fin 0"
  by (simp add: round32_def round_binary_def not_le pow2_pos)

lemma round32_sign: "round32 (of_int (- 1)) = Fin (- 1)" "round32 (of_int 1) = Fin 1"
  by (simp_all, code_simp+)

text \<open>
  Some values of \<open>round32\<close>: a tie goes to the even neighbour, a number that is not a
  binary fraction to the nearest binary32 number, a number from \<open>pow2 128 - pow2 103\<close>
  on to infinity, the least subnormal number stays and its half goes to zero.
\<close>

lemma round32_examples:
  "round32 16777217 = Fin 16777216"
  "round32 16777219 = Fin 16777220"
  "round32 (1 / 10) = Fin (13421773 / 134217728)"
  "round32 (pow2 128 - pow2 103) = PInf"
  "round32 (pow2 128 - pow2 104) = Fin (pow2 128 - pow2 104)"
  "round32 (pow2 (- 149)) = Fin (pow2 (- 149))"
  "round32 (pow2 (- 150)) = Fin 0"
  by code_simp+

lemma fmul_fneg_left: "fmul (fneg a) b = fneg (fmul a b)"
  by (cases a; cases b) (auto simp: round32_minus)

lemma fmul_zero_left: "is_finite b \<Longrightarrow> fmul (Fin 0) b = Fin 0"
  by (cases b) (simp_all add: round32_0)

lemma fadd_zero_zero: "fadd (Fin 0) (Fin 0) = Fin 0"
  by (simp add: round32_0)

text \<open>
  Adding \<open>b\<close> and then its negation gives \<open>a\<close> back when the first sum is not rounded.
\<close>

lemma fadd_cancel:
  assumes "exact_add a b" and "is_float32 a"
  shows "fadd (fadd a b) (fneg b) = a"
proof -
  from assms(1) obtain x y where a: "a = Fin x" and b: "b = Fin y"
    by (cases a; cases b) simp_all
  have "round32 (x + y) = Fin (x + y)" using assms(1) a b by simp
  moreover have "round32 x = Fin x" using assms(2) a by simp
  ultimately show ?thesis by (simp add: a b)
qed

section \<open>Facts about tensors\<close>

lemma wf_tensorI:
  "length (elems t) = nrows t \<Longrightarrow> (\<And>i. i < nrows t \<Longrightarrow> length (elems t ! i) = ncols t) \<Longrightarrow> wf_tensor t"
  by (auto simp: wf_tensor_def list_all_length)

lemma wf_tensor_rows: "wf_tensor t \<Longrightarrow> length (elems t) = nrows t"
  by (simp add: wf_tensor_def)

lemma wf_tensor_row: "wf_tensor t \<Longrightarrow> i < nrows t \<Longrightarrow> length (elems t ! i) = ncols t"
  by (simp add: wf_tensor_def list_all_length)

lemma tensor_eqI:
  assumes "wf_tensor a" "wf_tensor b" "nrows a = nrows b" "ncols a = ncols b"
    and "\<And>i j. i < nrows a \<Longrightarrow> j < ncols a \<Longrightarrow> entry a i j = entry b i j"
  shows "a = b"
proof -
  have "elems a = elems b"
  proof (rule nth_equalityI)
    show "length (elems a) = length (elems b)"
      using assms by (simp add: wf_tensor_rows)
  next
    fix i assume "i < length (elems a)"
    then have i: "i < nrows a" using assms(1) by (simp add: wf_tensor_rows)
    show "elems a ! i = elems b ! i"
    proof (rule nth_equalityI)
      show "length (elems a ! i) = length (elems b ! i)"
        using assms i by (simp add: wf_tensor_row)
    next
      fix j assume "j < length (elems a ! i)"
      then have "j < ncols a" using assms(1) i by (simp add: wf_tensor_row)
      then show "elems a ! i ! j = elems b ! i ! j"
        using assms(5)[OF i] by (simp add: entry_def)
    qed
  qed
  then show ?thesis using assms(3,4) by (simp add: tensor.expand)
qed

lemma full_shape [simp]: "nrows (full m n f) = m" "ncols (full m n f) = n"
  by (simp_all add: full_def)

lemma wf_full [simp]: "wf_tensor (full m n f)"
  by (simp add: full_def wf_tensor_def list_all_length)

lemma entry_full [simp]: "i < m \<Longrightarrow> j < n \<Longrightarrow> entry (full m n f) i j = f i j"
  by (simp add: full_def entry_def)

lemma transpose_shape [simp]:
  "nrows (transpose_t t) = ncols t" "ncols (transpose_t t) = nrows t"
  by (simp_all add: transpose_t_def)

lemma wf_transpose: "wf_tensor t \<Longrightarrow> wf_tensor (transpose_t t)"
  by (simp add: transpose_t_def wf_tensor_def list_all_length)

lemma entry_transpose:
  "wf_tensor t \<Longrightarrow> i < nrows t \<Longrightarrow> j < ncols t \<Longrightarrow> entry (transpose_t t) j i = entry t i j"
  by (simp add: transpose_t_def entry_def wf_tensor_def)

lemma smul_shape [simp]: "nrows (smul c t) = nrows t" "ncols (smul c t) = ncols t"
  by (simp_all add: smul_def)

lemma tmul_shape [simp]: "nrows (tmul t s) = nrows t" "ncols (tmul t s) = ncols t"
  by (simp_all add: tmul_def)

lemma wf_smul: "wf_tensor t \<Longrightarrow> wf_tensor (smul c t)"
  by (simp add: smul_def wf_tensor_def list_all_length)

lemma wf_tmul: "wf_tensor t \<Longrightarrow> wf_tensor (tmul t s)"
  by (simp add: tmul_def wf_tensor_def list_all_length)

lemma entry_smul:
  "wf_tensor t \<Longrightarrow> i < nrows t \<Longrightarrow> j < ncols t \<Longrightarrow>
   entry (smul c t) i j = fmul (round32 (of_int c)) (entry t i j)"
  by (simp add: smul_def entry_def wf_tensor_def list_all_length)

lemma entry_tmul:
  "wf_tensor t \<Longrightarrow> i < nrows t \<Longrightarrow> j < ncols t \<Longrightarrow>
   entry (tmul t s) i j = fmul (entry t i j) (round32 s)"
  by (simp add: tmul_def entry_def wf_tensor_def list_all_length)

lemma F_conv1d_Inr:
  "0 < nrows w \<Longrightarrow> nrows inp = ncols w \<Longrightarrow> 0 < ncols inp \<Longrightarrow>
   \<exists>c. F_conv1d inp w = Inr c \<and> nrows c = nrows w \<and> ncols c = ncols inp"
  by (simp add: F_conv1d_def)

lemma wf_conv1d: "F_conv1d inp w = Inr c \<Longrightarrow> wf_tensor w \<Longrightarrow> wf_tensor c"
  by (auto simp: F_conv1d_def wf_tensor_def list_all_length split: if_splits)

lemma F_conv1d_shape: "F_conv1d inp w = Inr c \<Longrightarrow> nrows c = nrows w \<and> ncols c = ncols inp"
  by (auto simp: F_conv1d_def split: if_splits)

lemma entry_conv1d:
  "F_conv1d inp w = Inr c \<Longrightarrow> wf_tensor w \<Longrightarrow> i < nrows w \<Longrightarrow> j < ncols inp \<Longrightarrow>
   entry c i j = dot (elems w ! i) (map (\<lambda>row. row ! j) (elems inp))"
  by (auto simp: F_conv1d_def entry_def wf_tensor_def split: if_splits)

text \<open>The library refuses a convolution over an input of length 0.\<close>

lemma F_conv1d_empty: "ncols inp = 0 \<Longrightarrow> F_conv1d inp w = Inl RuntimeError"
  by (simp add: F_conv1d_def)

lemma iadd_Inr_iff:
  "(\<exists>t. iadd w d = Inr t) \<longleftrightarrow> (nrows d = nrows w \<or> nrows d = 1) \<and> (ncols d = ncols w \<or> ncols d = 1)"
  by (auto simp: iadd_def broadcast_to_def)

lemma iadd_shape: "iadd w d = Inr t \<Longrightarrow> nrows t = nrows w \<and> ncols t = ncols w"
  by (auto simp: iadd_def split: option.splits)

lemma wf_iadd: "iadd w d = Inr t \<Longrightarrow> wf_tensor w \<Longrightarrow> wf_tensor t"
  by (auto simp: iadd_def broadcast_to_def full_def wf_tensor_def list_all_length split: option.splits if_splits)

lemma entry_iadd:
  "iadd w d = Inr t \<Longrightarrow> wf_tensor w \<Longrightarrow> i < nrows w \<Longrightarrow> j < ncols w \<Longrightarrow>
   entry t i j = fadd (entry w i j) (entry d (if nrows d = nrows w then i else 0) (if ncols d = ncols w then j else 0))"
  by (auto simp: iadd_def broadcast_to_def full_def wf_tensor_def entry_def list_all_length split: option.splits if_splits)

lemma iadd_same_shape:
  "nrows d = nrows w \<Longrightarrow> ncols d = ncols w \<Longrightarrow> \<exists>t. iadd w d = Inr t"
  by (simp add: iadd_Inr_iff)

lemma float32_tensor_entry:
  "float32_tensor t \<Longrightarrow> wf_tensor t \<Longrightarrow> i < nrows t \<Longrightarrow> j < ncols t \<Longrightarrow> is_float32 (entry t i j)"
  by (simp add: float32_tensor_def wf_tensor_def entry_def list_all_length)

lemma finite_tensor_entry:
  "finite_tensor t \<Longrightarrow> wf_tensor t \<Longrightarrow> i < nrows t \<Longrightarrow> j < ncols t \<Longrightarrow> is_finite (entry t i j)"
  by (simp add: finite_tensor_def wf_tensor_def entry_def list_all_length)

lemma exact_iadd_entry:
  assumes "exact_iadd w d" and "wf_tensor w" and "i < nrows w" and "j < ncols w"
    and "(nrows d = nrows w \<or> nrows d = 1) \<and> (ncols d = ncols w \<or> ncols d = 1)"
  shows "exact_add (entry w i j)
           (entry d (if nrows d = nrows w then i else 0) (if ncols d = ncols w then j else 0))"
proof -
  let ?d' = "full (nrows w) (ncols w) (\<lambda>i j. entry d (if nrows d = nrows w then i else 0)
                                          (if ncols d = ncols w then j else 0))"
  have "broadcast_to d (nrows w) (ncols w) = Some ?d'"
    using assms(5) by (simp add: broadcast_to_def)
  then have "list_all2 (list_all2 exact_add) (elems w) (elems ?d')"
    using assms(1) by (simp add: exact_iadd_def)
  then have "list_all2 exact_add (elems w ! i) (elems ?d' ! i)"
    using assms(2,3) by (simp add: list_all2_nthD wf_tensor_rows)
  then have "exact_add (elems w ! i ! j) (elems ?d' ! i ! j)"
    using assms(2,3,4) by (simp add: list_all2_nthD wf_tensor_row)
  then show ?thesis
    using assms(3,4) by (auto simp: entry_def full_def)
qed

section \<open>Construction\<close>

lemma init_Inl_iff:
  "(\<exists>e. init n_in n_out rk alpha dropout enable fifo mw use_bias w_rand b_rand a_rand = Inl e) \<longleftrightarrow>
   1 < dropout \<or> enable = [] \<or> n_out mod length enable \<noteq> 0 \<or>
   (rk > 0 \<and> any_of enable \<and> (\<exists>e. py_truediv alpha rk = Inl e))"
proof -
  have "(0 < dropout \<and> 1 < dropout) = (1 < dropout)" by auto
  then show ?thesis
    by (cases "py_truediv alpha rk") (simp_all add: init_def Let_def)
qed

lemma init_Inr:
  assumes "init n_in n_out rk alpha dropout enable fifo mw use_bias w_rand b_rand a_rand = Inr L"
  shows "L = \<lparr> in_features = n_in, out_features = n_out,
                 weight = (if fifo then transpose_t (full n_out n_in w_rand) else full n_out n_in w_rand),
                 weight_requires_grad = \<not> (rk > 0 \<and> any_of enable),
                 bias = (if use_bias then Some (map b_rand [0..<n_out]) else None),
                 training = True, r = rk, lora_alpha = alpha, lora_dropout = dropout,
                 merged = False, merge_weights = mw, enable_lora = enable, fan_in_fan_out = fifo,
                 lora_A = (if rk > 0 \<and> any_of enable then Some (full (nat rk) n_in a_rand) else None),
                 lora_B = (if rk > 0 \<and> any_of enable then Some (full n_out (nat rk) (\<lambda>i j. Fin 0)) else None),
                 scaling = (if rk > 0 \<and> any_of enable
                            then (case py_truediv alpha rk of Inl e \<Rightarrow> None | Inr q \<Rightarrow> Some q)
                            else None) \<rparr>"
proof -
  have ne: "\<not> (\<exists>e. init n_in n_out rk alpha dropout enable fifo mw use_bias w_rand b_rand a_rand = Inl e)"
    using assms by simp
  then have c: "\<not> 1 < dropout" "enable \<noteq> []" "n_out mod length enable = 0"
    unfolding init_Inl_iff by simp_all
  show ?thesis
  proof (cases "rk > 0 \<and> any_of enable")
    case False
    then have ad: "(rk > 0 \<and> any_of enable) = False" by simp
    show ?thesis
      using assms c unfolding init_def Let_def ad by simp
  next
    case True
    then have ad: "(rk > 0 \<and> any_of enable) = True" by simp
    have "\<not> (\<exists>e. py_truediv alpha rk = Inl e)"
      using ne True unfolding init_Inl_iff by simp
    then obtain q where q: "py_truediv alpha rk = Inr q"
      by (cases "py_truediv alpha rk") auto
    show ?thesis
      using assms c unfolding init_def Let_def ad q by simp
  qed
qed

lemma init_scaling:
  assumes "init n_in n_out rk alpha dropout enable fifo mw use_bias w_rand b_rand a_rand = Inr L"
    and "rk > 0" and "any_of enable"
  shows "py_truediv alpha rk = Inr (the (scaling L)) \<and> scaling L \<noteq> None"
proof -
  have ne: "\<not> (\<exists>e. init n_in n_out rk alpha dropout enable fifo mw use_bias w_rand b_rand a_rand = Inl e)"
    using assms(1) by simp
  then have "\<not> (\<exists>e. py_truediv alpha rk = Inl e)"
    using assms(2,3) unfolding init_Inl_iff by simp
  then obtain q where q: "py_truediv alpha rk = Inr q"
    by (cases "py_truediv alpha rk") auto
  show ?thesis
    unfolding init_Inr[OF assms(1)] using assms(2,3) by (simp add: q)
qed

lemma init_inv:
  assumes "init n_in n_out rk alpha dropout enable fifo mw use_bias w_rand b_rand a_rand = Inr L"
  shows "layer_inv L"
proof -
  have "\<not> (\<exists>e. init n_in n_out rk alpha dropout enable fifo mw use_bias w_rand b_rand a_rand = Inl e)"
    using assms by simp
  then have c: "enable \<noteq> []" "n_out mod length enable = 0"
    unfolding init_Inl_iff by simp_all
  show ?thesis
  proof (cases "rk > 0 \<and> any_of enable")
    case False
    then have ad: "(rk > 0 \<and> any_of enable) = False" by simp
    have f: "r L = rk" "enable_lora L = enable" "out_features L = n_out" "in_features L = n_in"
      "fan_in_fan_out L = fifo"
      "weight L = (if fifo then transpose_t (full n_out n_in w_rand) else full n_out n_in w_rand)"
      "bias L = (if use_bias then Some (map b_rand [0..<n_out]) else None)"
      "lora_A L = None" "lora_B L = None" "scaling L = None"
      unfolding init_Inr[OF assms] ad by simp_all
    show ?thesis
      unfolding layer_inv_def f ad using c by (simp add: wf_transpose)
  next
    case True
    then have ad: "(rk > 0 \<and> any_of enable) = True" by simp
    have s: "scaling L \<noteq> None" using True init_scaling[OF assms] by simp
    have f: "r L = rk" "enable_lora L = enable" "out_features L = n_out" "in_features L = n_in"
      "fan_in_fan_out L = fifo"
      "weight L = (if fifo then transpose_t (full n_out n_in w_rand) else full n_out n_in w_rand)"
      "bias L = (if use_bias then Some (map b_rand [0..<n_out]) else None)"
      "lora_A L = Some (full (nat rk) n_in a_rand)"
      "lora_B L = Some (full n_out (nat rk) (\<lambda>i j. Fin 0))"
      unfolding init_Inr[OF assms] ad by simp_all
    show ?thesis
      unfolding layer_inv_def f ad using c s by (simp add: wf_transpose)
  qed
qed

text \<open>Right after construction every row of \<open>lora_B\<close> is zero.\<close>

lemma init_lora_B_zero:
  assumes "init n_in n_out rk alpha dropout enable fifo mw use_bias w_rand b_rand a_rand = Inr L"
    and "lora_B L = Some B" and "j < out_features L"
  shows "\<forall>v\<in>set (elems B ! j). v = Fin 0"
proof -
  have "lora_B L = (if rk > 0 \<and> any_of enable then Some (full n_out (nat rk) (\<lambda>i j. Fin 0)) else None)"
    "out_features L = n_out"
    by (simp_all add: init_Inr[OF assms(1)])
  then show ?thesis
    using assms(2,3) by (auto simp: full_def split: if_splits)
qed

section \<open>The merge transition\<close>

lemma scaled_delta_training [simp]:
  "scaled_delta mode (L\<lparr>training := b\<rparr>) = scaled_delta mode L"
  by (simp add: scaled_delta_def cong: option.case_cong sum.case_cong)

lemma scaled_delta_merged [simp]:
  "scaled_delta mode (L\<lparr>merged := b\<rparr>) = scaled_delta mode L"
  by (simp add: scaled_delta_def cong: option.case_cong sum.case_cong)

lemma scaled_delta_weight [simp]:
  "scaled_delta mode (L\<lparr>weight := w\<rparr>) = scaled_delta mode L"
  by (simp add: scaled_delta_def cong: option.case_cong sum.case_cong)

lemma update_weight_training [simp]:
  "update_weight mode (L\<lparr>training := b\<rparr>) = update_weight mode L"
  by (simp add: update_weight_def cong: sum.case_cong)

lemma update_weight_merged [simp]:
  "update_weight mode (L\<lparr>merged := b\<rparr>) = update_weight mode L"
  by (simp add: update_weight_def cong: sum.case_cong)

lemma train_unfold:
  "train mode L =
     (if merge_weights L \<and> merged L = mode then
        if r L > 0 \<and> any_of (enable_lora L) then
          (case update_weight mode L of
             Inl e \<Rightarrow> (Some e, L\<lparr>training := mode\<rparr>)
           | Inr w' \<Rightarrow> (None, L\<lparr>training := mode, weight := w', merged := \<not> mode\<rparr>))
        else (None, L\<lparr>training := mode, merged := \<not> mode\<rparr>)
      else (None, L\<lparr>training := mode\<rparr>))"
  by (cases mode) (simp_all add: train_def Let_def cong: sum.case_cong)

lemma train_cases [case_names noop flip raised updated]:
  assumes "\<lbrakk>\<not> (merge_weights L \<and> merged L = mode); train mode L = (None, L\<lparr>training := mode\<rparr>)\<rbrakk> \<Longrightarrow> P"
    and "\<lbrakk>merge_weights L; merged L = mode; \<not> (r L > 0 \<and> any_of (enable_lora L));
          train mode L = (None, L\<lparr>training := mode, merged := \<not> mode\<rparr>)\<rbrakk> \<Longrightarrow> P"
    and "\<And>e. \<lbrakk>merge_weights L; merged L = mode; r L > 0; any_of (enable_lora L);
          update_weight mode L = Inl e; train mode L = (Some e, L\<lparr>training := mode\<rparr>)\<rbrakk> \<Longrightarrow> P"
    and "\<And>w'. \<lbrakk>merge_weights L; merged L = mode; r L > 0; any_of (enable_lora L);
          update_weight mode L = Inr w';
          train mode L = (None, L\<lparr>training := mode, weight := w', merged := \<not> mode\<rparr>)\<rbrakk> \<Longrightarrow> P"
  shows P
proof (cases "merge_weights L \<and> merged L = mode")
  case False
  then have "train mode L = (None, L\<lparr>training := mode\<rparr>)"
    unfolding train_unfold by (simp only: if_False)
  with False assms(1) show P by blast
next
  case fire: True
  show P
  proof (cases "r L > 0 \<and> any_of (enable_lora L)")
    case False
    then have "train mode L = (None, L\<lparr>training := mode, merged := \<not> mode\<rparr>)"
      using fire unfolding train_unfold by (simp only: if_True if_False simp_thms)
    with False fire assms(2) show P by blast
  next
    case elig: True
    show P
    proof (cases "update_weight mode L")
      case (Inl e)
      then have "train mode L = (Some e, L\<lparr>training := mode\<rparr>)"
        using fire elig unfolding train_unfold by (simp only: if_True sum.case simp_thms)
      with Inl fire elig assms(3) show P by blast
    next
      case (Inr w')
      then have "train mode L = (None, L\<lparr>training := mode, weight := w', merged := \<not> mode\<rparr>)"
        using fire elig unfolding train_unfold by (simp only: if_True sum.case simp_thms)
      with Inr fire elig assms(4) show P by blast
    qed
  qed
qed

lemma train_noop:
  "\<not> (merge_weights L \<and> merged L = mode) \<Longrightarrow> train mode L = (None, L\<lparr>training := mode\<rparr>)"
  unfolding train_unfold by (simp only: if_False)

text \<open>The merge transition keeps the invariant of the constructor.\<close>

lemma update_weight_shape:
  "update_weight mode L = Inr w' \<Longrightarrow> nrows w' = nrows (weight L) \<and> ncols w' = ncols (weight L)"
  by (auto simp: update_weight_def iadd_shape split: sum.splits)

lemma update_weight_wf:
  "update_weight mode L = Inr w' \<Longrightarrow> wf_tensor (weight L) \<Longrightarrow> wf_tensor w'"
  by (auto simp: update_weight_def wf_iadd split: sum.splits)

lemma layer_inv_training [simp]: "layer_inv (L\<lparr>training := b\<rparr>) = layer_inv L"
  by (simp add: layer_inv_def cong: option.case_cong)

lemma layer_inv_merged [simp]: "layer_inv (L\<lparr>merged := b\<rparr>) = layer_inv L"
  by (simp add: layer_inv_def cong: option.case_cong)

lemma layer_inv_weight:
  "layer_inv L \<Longrightarrow> wf_tensor w' \<Longrightarrow> nrows w' = nrows (weight L) \<Longrightarrow>
   ncols w' = ncols (weight L) \<Longrightarrow> layer_inv (L\<lparr>weight := w'\<rparr>)"
  by (simp add: layer_inv_def cong: option.case_cong)

lemma train_inv:
  assumes "layer_inv L"
  shows "layer_inv (snd (train mode L))"
proof (cases mode L rule: train_cases)
  case noop
  then show ?thesis using assms by simp
next
  case flip
  then show ?thesis using assms by simp
next
  case (raised e)
  then show ?thesis using assms by simp
next
  case (updated w')
  have w: "wf_tensor w'" "nrows w' = nrows (weight L)" "ncols w' = ncols (weight L)"
    using update_weight_wf[OF updated(5)] update_weight_shape[OF updated(5)] assms
    by (simp_all add: layer_inv_def)
  have "layer_inv (L\<lparr>training := mode\<rparr>)" using assms by simp
  then have "layer_inv (L\<lparr>training := mode, weight := w'\<rparr>)"
    using w by (intro layer_inv_weight) simp_all
  then have "layer_inv (L\<lparr>training := mode, weight := w', merged := \<not> mode\<rparr>)"
    by simp
  then show ?thesis using updated(6) by simp
qed

text \<open>
  Claim C4. Calling \<^verbatim>\<open>train\<close> twice in a row with the same mode leaves the layer, and
  so its weight and its \<open>merged\<close> flag, as calling it once does: the second call changes
  nothing, also when the first call raised.
\<close>

theorem train_idempotent: "snd (train mode (snd (train mode L))) = snd (train mode L)"
proof (cases mode L rule: train_cases)
  case noop
  then show ?thesis by (simp add: train_noop)
next
  case flip
  then show ?thesis by (simp add: train_noop)
next
  case (raised e)
  then have "train mode (L\<lparr>training := mode\<rparr>) = (Some e, L\<lparr>training := mode\<rparr>)"
    by (simp add: train_unfold)
  with raised show ?thesis by simp
next
  case (updated w')
  then show ?thesis by (simp add: train_noop)
qed

text \<open>
  The update that \<^verbatim>\<open>train(True)\<close> adds is, entry by entry, the negation of the update
  that \<^verbatim>\<open>train(False)\<close> adds: rounding is symmetric.
\<close>

lemma scaled_delta_neg:
  assumes inv: "layer_inv L" and d: "scaled_delta False L = Inr d"
  shows "\<exists>d'. scaled_delta True L = Inr d' \<and> wf_tensor d \<and> wf_tensor d' \<and>
           nrows d' = nrows d \<and> ncols d' = ncols d \<and>
           (\<forall>i<nrows d. \<forall>j<ncols d. entry d' i j = fneg (entry d i j))"
proof -
  from d obtain A B delta s where
    A: "lora_A L = Some A" and B: "lora_B L = Some B" and c: "F_conv1d A B = Inr delta"
    and s: "scaling L = Some s" and dd: "d = tmul (smul 1 delta) s"
    by (auto simp: scaled_delta_def Let_def split: option.splits sum.splits)
  have "r L > 0 \<and> any_of (enable_lora L)"
    using inv A by (auto simp: layer_inv_def split: if_splits)
  then have wfB: "wf_tensor B" using inv B by (simp add: layer_inv_def)
  have wfd: "wf_tensor delta" using wf_conv1d[OF c wfB] .
  let ?d' = "tmul (smul (- 1) delta) s"
  have 1: "scaled_delta True L = Inr ?d'"
    by (simp add: scaled_delta_def A B c s)
  have 2: "wf_tensor d" "wf_tensor ?d'" "nrows ?d' = nrows d" "ncols ?d' = ncols d"
    by (simp_all add: dd wf_tmul wf_smul wfd)
  have 3: "entry ?d' i j = fneg (entry d i j)" if "i < nrows d" "j < ncols d" for i j
  proof -
    have ij: "i < nrows delta" "j < ncols delta" using that by (simp_all add: dd)
    have "entry ?d' i j = fmul (fmul (round32 (of_int (- 1))) (entry delta i j)) (round32 s)"
      using ij wfd by (simp add: entry_tmul entry_smul wf_smul del: of_int_minus)
    also have "\<dots> = fmul (fmul (fneg (round32 (of_int 1))) (entry delta i j)) (round32 s)"
      by (simp only: round32_sign fneg.simps)
    also have "\<dots> = fneg (fmul (fmul (round32 (of_int 1)) (entry delta i j)) (round32 s))"
      by (simp only: fmul_fneg_left)
    also have "fmul (fmul (round32 (of_int 1)) (entry delta i j)) (round32 s) = entry d i j"
      using ij wfd by (simp add: dd entry_tmul entry_smul wf_smul)
    finally show ?thesis .
  qed
  show ?thesis using 1 2 3 by blast
qed

lemma iadd_roundtrip:
  assumes w: "wf_tensor w" and d: "wf_tensor d" "wf_tensor d'"
    and sh: "nrows d' = nrows d" "ncols d' = ncols d"
    and neg: "\<And>i j. i < nrows d \<Longrightarrow> j < ncols d \<Longrightarrow> entry d' i j = fneg (entry d i j)"
    and ex: "exact_iadd w d" and fw: "float32_tensor w"
    and add: "iadd w d = Inr w'"
  shows "iadd w' d' = Inr w"
proof -
  have shw: "nrows w' = nrows w" "ncols w' = ncols w"
    using iadd_shape[OF add] by simp_all
  have bc: "(nrows d = nrows w \<or> nrows d = 1) \<and> (ncols d = ncols w \<or> ncols d = 1)"
    using add iadd_Inr_iff[of w d] by blast
  then have "\<exists>t. iadd w' d' = Inr t"
    using iadd_Inr_iff[of w' d'] sh shw by simp
  then obtain t where t: "iadd w' d' = Inr t" by blast
  have wfw': "wf_tensor w'" using wf_iadd[OF add w] .
  have wft: "wf_tensor t" using wf_iadd[OF t wfw'] .
  have sht: "nrows t = nrows w" "ncols t = ncols w"
    using iadd_shape[OF t] shw by simp_all
  have "t = w"
  proof (rule tensor_eqI[OF wft w sht])
    fix i j assume ij: "i < nrows t" "j < ncols t"
    then have ij': "i < nrows w" "j < ncols w" "i < nrows w'" "j < ncols w'"
      using sht shw by simp_all
    define i' where "i' = (if nrows d = nrows w then i else 0)"
    define j' where "j' = (if ncols d = ncols w then j else 0)"
    have r: "i' < nrows d" "j' < ncols d"
      using bc ij' by (auto simp: i'_def j'_def)
    have e1: "exact_add (entry w i j) (entry d i' j')"
      using exact_iadd_entry[OF ex w ij'(1,2) bc] by (simp add: i'_def j'_def)
    have e2: "is_float32 (entry w i j)"
      using float32_tensor_entry[OF fw w ij'(1,2)] .
    have "entry t i j = fadd (entry w' i j) (entry d' i' j')"
      using entry_iadd[OF t wfw' ij'(3,4)] sh shw by (simp add: i'_def j'_def)
    also have "entry w' i j = fadd (entry w i j) (entry d i' j')"
      using entry_iadd[OF add w ij'(1,2)] by (simp add: i'_def j'_def)
    also have "entry d' i' j' = fneg (entry d i' j')"
      using neg[OF r] .
    finally show "entry t i j = entry w i j"
      using fadd_cancel[OF e1 e2] by simp
  qed
  with t show ?thesis by simp
qed

lemma update_weight_roundtrip:
  assumes inv: "layer_inv L" and fw: "float32_tensor (weight L)" and ex: "merge_exact L"
    and up: "update_weight False L = Inr w'"
  shows "update_weight True (L\<lparr>weight := w'\<rparr>) = Inr (weight L)"
proof -
  from up obtain d where d: "scaled_delta False L = Inr d" and add: "iadd (weight L) d = Inr w'"
    by (auto simp: update_weight_def split: sum.splits)
  from scaled_delta_neg[OF inv d] obtain d' where
    d': "scaled_delta True L = Inr d'" and wf: "wf_tensor d" "wf_tensor d'"
    and sh: "nrows d' = nrows d" "ncols d' = ncols d"
    and neg: "\<forall>i<nrows d. \<forall>j<ncols d. entry d' i j = fneg (entry d i j)"
    by blast
  have wfw: "wf_tensor (weight L)" using inv by (simp add: layer_inv_def)
  have exi: "exact_iadd (weight L) d" using ex d by (simp add: merge_exact_def)
  have "iadd w' d' = Inr (weight L)"
    using iadd_roundtrip[OF wfw wf sh _ exi fw add] neg by simp
  then show ?thesis
    by (simp add: update_weight_def d')
qed

lemma rounding_layer_constructed:
  "init 1 1 1 1 0 [True] False True False (\<lambda>i j. Fin 1) draw_bias (\<lambda>i j. Fin 16777216) =
     Inr (rounding_layer\<lparr>lora_B := Some (Tensor 1 1 [[Fin 0]])\<rparr>)"
  by code_simp

text \<open>
  Claim C3 as stated fails: the weight 1 of a layer whose update is \<open>16777216\<close> is
  \<open>16777216\<close> after \<^verbatim>\<open>train(False)\<close>, the sum \<open>16777217\<close> being rounded, and 0
  after the \<^verbatim>\<open>train(True)\<close> that follows.
\<close>

theorem merge_unmerge_rounds_weight:
  "layer_inv rounding_layer \<and> \<not> merged rounding_layer \<and>
   float32_tensor (weight rounding_layer) \<and>
   weight rounding_layer = Tensor 1 1 [[Fin 1]] \<and>
   fst (train False rounding_layer) = None \<and>
   weight (snd (train False rounding_layer)) = Tensor 1 1 [[Fin 16777216]] \<and>
   fst (train True (snd (train False rounding_layer))) = None \<and>
   weight (snd (train True (snd (train False rounding_layer)))) = Tensor 1 1 [[Fin 0]] \<and>
   weight (snd (train True (snd (train False rounding_layer)))) \<noteq> weight rounding_layer"
  by code_simp

text \<open>
  Claim C3, as the code has it. For a layer that is not merged and whose weight holds
  binary32 numbers, \<^verbatim>\<open>train(False)\<close> followed by \<^verbatim>\<open>train(True)\<close> leaves the weight as
  it was when no sum of the merge is rounded, whatever the factors and the scaling are;
  also when the merge does not apply or raises, the weight being untouched then.
\<close>

theorem merge_unmerge_roundtrip_exact:
  assumes "layer_inv L" and "\<not> merged L" and "float32_tensor (weight L)" and "merge_exact L"
  shows "weight (snd (train True (snd (train False L)))) = weight L"
proof (cases False L rule: train_cases)
  case noop
  then have a: "snd (train False L) = L\<lparr>training := False\<rparr>" by simp
  have "train True (L\<lparr>training := False\<rparr>) = (None, L\<lparr>training := False, training := True\<rparr>)"
    using assms(2) by (simp add: train_noop)
  then show ?thesis unfolding a by simp
next
  case flip
  then have a: "snd (train False L) = L\<lparr>training := False, merged := True\<rparr>" by simp
  have "train True (L\<lparr>training := False, merged := True\<rparr>) =
          (None, L\<lparr>training := False, merged := True, training := True, merged := False\<rparr>)"
    using flip(1,3) by (auto simp: train_unfold)
  then show ?thesis unfolding a by simp
next
  case (raised e)
  then have a: "snd (train False L) = L\<lparr>training := False\<rparr>" by simp
  have "train True (L\<lparr>training := False\<rparr>) = (None, L\<lparr>training := False, training := True\<rparr>)"
    using assms(2) by (simp add: train_noop)
  then show ?thesis unfolding a by simp
next
  case (updated w')
  then have a: "snd (train False L) = L\<lparr>training := False, weight := w', merged := True\<rparr>"
    by simp
  have "update_weight True (L\<lparr>weight := w'\<rparr>) = Inr (weight L)"
    using update_weight_roundtrip[OF assms(1,3,4) updated(5)] .
  then have "update_weight True (L\<lparr>training := False, weight := w', merged := True\<rparr>) = Inr (weight L)"
    by (simp add: update_weight_def cong: sum.case_cong)
  then have "weight (snd (train True (L\<lparr>training := False, weight := w', merged := True\<rparr>))) = weight L"
    using updated(1,3,4) by (simp add: train_unfold)
  then show ?thesis unfolding a .
qed

theorem merge_unmerge_roundtrip_exact_witness:
  "layer_inv example_layer \<and> \<not> merged example_layer \<and>
   float32_tensor (weight example_layer) \<and> merge_exact example_layer \<and>
   weight (snd (train False example_layer)) =
     Tensor 3 2 [[Fin 3, Fin 6], [Fin 5, Fin 8], [Fin 7, Fin 10]] \<and>
   weight (snd (train True (snd (train False example_layer)))) = weight example_layer"
proof -
  have h1: "layer_inv example_layer"
    by (simp add: example_layer_def layer_inv_def wf_tensor_def any_of_def)
  have h2: "\<not> merged example_layer"
    by (simp add: example_layer_def)
  have h3: "float32_tensor (weight example_layer)"
    by code_simp
  have h4: "merge_exact example_layer"
    by code_simp
  have h5: "weight (snd (train False example_layer)) =
      Tensor 3 2 [[Fin 3, Fin 6], [Fin 5, Fin 8], [Fin 7, Fin 10]]"
    by code_simp
  show ?thesis using h1 h2 h3 h4 h5 merge_unmerge_roundtrip_exact[OF h1 h2 h3 h4] by simp
qed

section \<open>The forward pass\<close>

lemma row_as_map:
  "wf_tensor t \<Longrightarrow> i < nrows t \<Longrightarrow> elems t ! i = map (entry t i) [0..<ncols t]"
  by (rule nth_equalityI) (simp_all add: wf_tensor_row entry_def)

lemma F_linear_shape:
  "F_linear x w b = Inr t \<Longrightarrow> nrows t = nrows x \<and> ncols t = nrows w"
  by (auto simp: F_linear_def split: if_splits option.splits)

lemma wf_linear:
  "F_linear x w b = Inr t \<Longrightarrow> wf_tensor x \<Longrightarrow> wf_tensor w \<Longrightarrow> wf_tensor t"
  by (auto simp: F_linear_def wf_tensor_def list_all_length split: if_splits option.splits)

lemma F_linear_Inr_None:
  "ncols x = ncols w \<Longrightarrow> \<exists>t. F_linear x w None = Inr t"
  by (simp add: F_linear_def)

text \<open>The value \<^verbatim>\<open>after_B * self.scaling\<close>, entry by entry.\<close>

lemma lora_branch_entry:
  assumes A: "lora_A L = Some A"
    and B: "lora_B L = Some B" "wf_tensor B" "ncols B = nrows A" "0 < nrows B"
    and s: "scaling L = Some s"
    and x: "wf_tensor (apply_dropout dropout_fn L x)" "0 < nrows (apply_dropout dropout_fn L x)"
    and aA: "F_linear (apply_dropout dropout_fn L x) A None = Inr after_A" "wf_tensor after_A"
  shows "\<exists>u. lora_branch dropout_fn L x = Inr u \<and> wf_tensor u \<and>
           nrows u = nrows after_A \<and> ncols u = nrows B \<and>
           (\<forall>i<nrows after_A. \<forall>j<nrows B.
              entry u i j = fmul (dot (elems B ! j) (elems after_A ! i)) (round32 s))"
proof -
  let ?x' = "apply_dropout dropout_fn L x"
  have shA: "nrows after_A = nrows ?x'" "ncols after_A = nrows A"
    using F_linear_shape[OF aA(1)] by simp_all
  have wfA: "wf_tensor after_A" using aA(2) .
  obtain c where c: "F_conv1d (transpose_t after_A) B = Inr c"
    using F_conv1d_Inr[of B "transpose_t after_A"] shA B(3,4) x(2) by auto
  have shc: "nrows c = nrows B" "ncols c = nrows after_A"
    using F_conv1d_shape[OF c] by simp_all
  have wfc: "wf_tensor c" using wf_conv1d[OF c B(2)] .
  let ?u = "tmul (transpose_t c) s"
  have u: "lora_branch dropout_fn L x = Inr ?u"
    by (simp add: lora_branch_def A B(1) s aA(1) c)
  have wfu: "wf_tensor ?u" by (simp add: wf_tmul wf_transpose wfc)
  have ent: "entry ?u i j = fmul (dot (elems B ! j) (elems after_A ! i)) (round32 s)"
    if ij: "i < nrows after_A" "j < nrows B" for i j
  proof -
    have "entry ?u i j = fmul (entry c j i) (round32 s)"
      using ij shc wfc by (simp add: entry_tmul wf_transpose entry_transpose)
    also have "entry c j i = dot (elems B ! j) (map (\<lambda>row. row ! i) (elems (transpose_t after_A)))"
      using entry_conv1d[OF c B(2) ij(2)] ij(1) by simp
    also have "map (\<lambda>row. row ! i) (elems (transpose_t after_A)) = map (entry after_A i) [0..<ncols after_A]"
      using ij(1) wfA by (simp add: transpose_t_def entry_def wf_tensor_rows)
    also have "\<dots> = elems after_A ! i"
      using row_as_map[OF wfA, of i] ij(1) by simp
    finally show ?thesis .
  qed
  show ?thesis using u wfu shc ent by (intro exI[of _ ?u]) simp
qed

text \<open>The low-rank branch raises on an input without rows.\<close>

lemma lora_branch_empty_input:
  assumes "lora_A L = Some A" and "lora_B L = Some B"
    and "nrows (apply_dropout dropout_fn L x) = 0"
  shows "\<exists>e. lora_branch dropout_fn L x = Inl e"
proof (cases "F_linear (apply_dropout dropout_fn L x) A None")
  case (Inl e)
  then show ?thesis by (simp add: lora_branch_def assms(1))
next
  case (Inr after_A)
  then have "nrows after_A = 0" using F_linear_shape[OF Inr] assms(3) by simp
  then have "F_conv1d (transpose_t after_A) B = Inl RuntimeError"
    by (simp add: F_conv1d_empty)
  then show ?thesis by (simp add: lora_branch_def assms(1,2) Inr)
qed

lemma dot_zero_left:
  "\<forall>v\<in>set zs. v = Fin 0 \<Longrightarrow> \<forall>y\<in>set ys. is_finite y \<Longrightarrow> dot zs ys = Fin 0"
proof (induction zs arbitrary: ys)
  case Nil
  then show ?case by (simp add: dot_def)
next
  case (Cons z zs)
  show ?case
  proof (cases ys)
    case Nil
    then show ?thesis by (simp add: dot_def)
  next
    case (Cons y ys')
    have z: "z = Fin 0" and y: "is_finite y" using Cons.prems local.Cons by simp_all
    have "dot zs ys' = Fin 0" using Cons.IH[of ys'] Cons.prems local.Cons by simp
    then show ?thesis
      using z y local.Cons by (simp add: dot_def fmul_zero_left round32_0)
  qed
qed

lemma forward_plain:
  "merged L \<or> r L \<le> 0 \<Longrightarrow> forward dropout_fn L x = F_linear x (T L (weight L)) (bias L)"
  by (auto simp: forward_def split: sum.splits)

lemma layer_inv_factors:
  assumes "layer_inv L" "r L > 0" "any_of (enable_lora L)"
  obtains A B s where "lora_A L = Some A" "wf_tensor A" "nrows A = nat (r L)" "ncols A = in_features L"
    "lora_B L = Some B" "wf_tensor B" "nrows B = out_features L" "ncols B = nat (r L)"
    "scaling L = Some s"
  using assms by (auto simp: layer_inv_def split: option.splits)

section \<open>Layers without adaptation under the merge transition\<close>

lemma rank0_layer_constructed:
  "init 1 1 0 1 0 [False] False True False draw_weight draw_bias draw_A = Inr rank0_layer"
  by code_simp

lemma no_partition_layer_constructed:
  "init 1 1 1 1 0 [False] False True False draw_weight draw_bias draw_A = Inr no_partition_layer"
  by code_simp

lemma train_ineligible:
  assumes "\<not> (r L > 0 \<and> any_of (enable_lora L))"
  shows "train mode L = (None, L\<lparr>training := mode, merged := (if merge_weights L then \<not> mode else merged L)\<rparr>)"
proof (cases "merge_weights L \<and> merged L = mode")
  case True
  then show ?thesis using assms by (auto simp: train_unfold)
next
  case False
  then have "(if merge_weights L then \<not> mode else merged L) = merged L" by auto
  then have "L\<lparr>training := mode, merged := (if merge_weights L then \<not> mode else merged L)\<rparr> = L\<lparr>training := mode\<rparr>"
    by simp
  then show ?thesis using train_noop[OF False] by simp
qed

text \<open>
  Claim C5, as the code has it. For a layer whose rank is not positive or that has no
  partition enabled, no sequence of calls of \<^verbatim>\<open>train\<close> changes the weight. The
  \<open>merged\<close> flag is not kept: when \<open>merge_weights\<close> is set, it is the negation of the
  mode of the last call; it keeps its value only when \<open>merge_weights\<close> is not set.
\<close>

theorem ineligible_train_seq:
  assumes "\<not> (r L > 0 \<and> any_of (enable_lora L))"
  shows "weight (train_seq modes L) = weight L \<and>
         merged (train_seq modes L) =
           (if merge_weights L \<and> modes \<noteq> [] then \<not> last modes else merged L)"
  using assms
proof (induction modes arbitrary: L)
  case Nil
  then show ?case by simp
next
  case (Cons mode modes)
  let ?L1 = "L\<lparr>training := mode, merged := (if merge_weights L then \<not> mode else merged L)\<rparr>"
  have step: "snd (train mode L) = ?L1"
    using train_ineligible[OF Cons.prems] by simp
  have "\<not> (r ?L1 > 0 \<and> any_of (enable_lora ?L1))" using Cons.prems by simp
  from Cons.IH[OF this] show ?case
    unfolding train_seq.simps step by (cases modes) auto
qed

theorem ineligible_train_seq_witness:
  "\<not> (r rank0_layer > 0 \<and> any_of (enable_lora rank0_layer)) \<and>
   weight (train_seq [False, True, False] rank0_layer) = weight rank0_layer \<and>
   merged (train_seq [False, True, False] rank0_layer)"
proof -
  have h: "\<not> (r rank0_layer > 0 \<and> any_of (enable_lora rank0_layer))"
    by (simp add: rank0_layer_def no_partition_layer_def)
  have m: "merge_weights rank0_layer"
    by (simp add: rank0_layer_def no_partition_layer_def)
  show ?thesis using h m ineligible_train_seq[OF h, of "[False, True, False]"] by simp
qed

text \<open>
  Claim C5 as stated fails: a layer of rank 0, built with the default
  \<^verbatim>\<open>merge_weights=True\<close>, is merged after \<^verbatim>\<open>train(False)\<close>.
\<close>

theorem rank0_merged_flag_changes:
  "r rank0_layer = 0 \<and> \<not> any_of (enable_lora rank0_layer) \<and> \<not> merged rank0_layer \<and>
   merged (train_seq [False] rank0_layer)"
  by (simp add: rank0_layer_def no_partition_layer_def any_of_def train_def)

section \<open>The forward pass before and after the merge\<close>

lemma example_layer_constructed:
  "\<exists>w_rand b_rand a_rand L0.
     init 2 3 1 2 0 [True, False, True] False True True w_rand b_rand a_rand = Inr L0 \<and>
     example_layer = L0\<lparr>lora_B := Some (Tensor 3 1 [[Fin 1], [Fin 1], [Fin 1]])\<rparr>"
proof -
  let ?w = "\<lambda>i j. Fin (of_nat (2 * i + j + 1))"
  have "init 2 3 1 2 0 [True, False, True] False True True ?w (\<lambda>i. Fin 1) (\<lambda>i j. Fin (of_nat (j + 1))) =
          Inr (example_layer\<lparr>lora_B := Some (Tensor 3 1 [[Fin 0], [Fin 0], [Fin 0]])\<rparr>)"
    by code_simp
  moreover have "example_layer =
      (example_layer\<lparr>lora_B := Some (Tensor 3 1 [[Fin 0], [Fin 0], [Fin 0]])\<rparr>)
        \<lparr>lora_B := Some (Tensor 3 1 [[Fin 1], [Fin 1], [Fin 1]])\<rparr>"
    by (simp add: example_layer_def)
  ultimately show ?thesis by blast
qed

lemma fan_layer_constructed:
  "\<exists>w_rand b_rand a_rand L0.
     init 2 2 1 1 0 [True] True True False w_rand b_rand a_rand = Inr L0 \<and>
     fan_layer = L0\<lparr>lora_B := Some (Tensor 2 1 [[Fin 0], [Fin 1]])\<rparr>"
proof -
  have "init 2 2 1 1 0 [True] True True False (\<lambda>i j. Fin 0) (\<lambda>i. Fin 0)
          (\<lambda>i j. if j = 0 then Fin 1 else Fin 0) =
          Inr (fan_layer\<lparr>lora_B := Some (Tensor 2 1 [[Fin 0], [Fin 0]])\<rparr>)"
    by code_simp
  moreover have "fan_layer =
      (fan_layer\<lparr>lora_B := Some (Tensor 2 1 [[Fin 0], [Fin 0]])\<rparr>)
        \<lparr>lora_B := Some (Tensor 2 1 [[Fin 0], [Fin 1]])\<rparr>"
    by (simp add: fan_layer_def)
  ultimately show ?thesis by blast
qed

text \<open>
  Without \<^verbatim>\<open>fan_in_fan_out\<close> the layer of the example answers the same before and after
  the merge.
\<close>

lemma merge_keeps_forward_example:
  "\<not> fan_in_fan_out example_layer \<and>
   forward id example_layer (Tensor 1 2 [[Fin 1, Fin 1]]) =
     Inr (Tensor 1 3 [[Fin 10, Fin 14, Fin 18]]) \<and>
   forward id (snd (train False example_layer)) (Tensor 1 2 [[Fin 1, Fin 1]]) =
     Inr (Tensor 1 3 [[Fin 10, Fin 14, Fin 18]])"
  by code_simp

text \<open>
  Claim C1 at a layer with \<^verbatim>\<open>fan_in_fan_out=True\<close>. \<^verbatim>\<open>train\<close> adds \<^verbatim>\<open>delta_w\<close>, of
  shape \<open>out \<times> in\<close>, to the weight that the constructor stored transposed, without the
  transposition \<^verbatim>\<open>T\<close> that \<^verbatim>\<open>forward\<close> applies: the layer answers \<open>[0, 1]\<close> before
  the merge and \<open>[0, 0]\<close> after it.
\<close>

theorem merge_changes_forward_fan_in_fan_out:
  "layer_inv fan_layer \<and> fan_in_fan_out fan_layer \<and> \<not> merged fan_layer \<and>
   forward id fan_layer (Tensor 1 2 [[Fin 1, Fin 0]]) = Inr (Tensor 1 2 [[Fin 0, Fin 1]]) \<and>
   fst (train False fan_layer) = None \<and> merged (snd (train False fan_layer)) \<and>
   forward id (snd (train False fan_layer)) (Tensor 1 2 [[Fin 1, Fin 0]]) =
     Inr (Tensor 1 2 [[Fin 0, Fin 0]])"
  by code_simp

section \<open>The partitions in the forward pass\<close>

text \<open>
  Claim C2 as stated fails: with \<^verbatim>\<open>enable_lora = [True, False, True]\<close> and a \<open>lora_B\<close>
  whose middle row is not zero, the low-rank branch adds 6 at the output index of the
  middle partition.
\<close>

theorem disabled_partition_receives_update:
  "enable_lora example_layer = [True, False, True] \<and>
   lora_branch id example_layer (Tensor 1 2 [[Fin 1, Fin 1]]) =
     Inr (Tensor 1 3 [[Fin 6, Fin 6, Fin 6]]) \<and>
   entry (Tensor 1 3 [[Fin 6, Fin 6, Fin 6]]) 0 1 \<noteq> Fin 0 \<and>
   F_linear (Tensor 1 2 [[Fin 1, Fin 1]]) (weight example_layer) (bias example_layer) =
     Inr (Tensor 1 3 [[Fin 4, Fin 8, Fin 12]]) \<and>
   forward id example_layer (Tensor 1 2 [[Fin 1, Fin 1]]) =
     Inr (Tensor 1 3 [[Fin 10, Fin 14, Fin 18]])"
  by code_simp

text \<open>
  Claim C2, as the code has it. \<open>lora_B\<close> has a row for every output index and
  \<^verbatim>\<open>forward\<close> masks nothing: the low-rank branch contributes zero at an output index of
  the middle partition when the row of \<open>lora_B\<close> at that index is zero, as every row is
  after construction, the input has a row at least, and the product \<^verbatim>\<open>after_A\<close> of the
  input and \<open>lora_A\<close> and the scaling are finite binary32 numbers.
\<close>

theorem disabled_partition_zero_rows:
  assumes inv: "layer_inv L" and en: "enable_lora L = [True, False, True]" and rk: "r L > 0"
    and A: "lora_A L = Some A" and B: "lora_B L = Some B" and s: "scaling L = Some s"
    and x: "wf_tensor x" "ncols x = in_features L" "0 < nrows x"
    and d: "wf_tensor (dropout_fn x)" "nrows (dropout_fn x) = nrows x" "ncols (dropout_fn x) = ncols x"
    and fin: "F_linear (apply_dropout dropout_fn L x) A None = Inr after_A"
      "finite_tensor after_A" "is_finite (round32 s)"
    and j: "out_features L div 3 \<le> j" "j < 2 * (out_features L div 3)"
    and z: "\<forall>v\<in>set (elems B ! j). v = Fin 0"
  shows "\<exists>u. lora_branch dropout_fn L x = Inr u \<and> nrows u = nrows x \<and>
             ncols u = out_features L \<and> (\<forall>i<nrows x. entry u i j = Fin 0)"
proof -
  have any: "any_of (enable_lora L)" by (simp add: en any_of_def)
  obtain A' B' s' where A': "lora_A L = Some A'" "wf_tensor A'" "nrows A' = nat (r L)" "ncols A' = in_features L"
    and B': "lora_B L = Some B'" "wf_tensor B'" "nrows B' = out_features L" "ncols B' = nat (r L)"
    and s': "scaling L = Some s'"
    using layer_inv_factors[OF inv rk any] by blast
  have eq: "A' = A" "B' = B" "s' = s" using A B s A'(1) B'(1) s' by simp_all
  let ?x' = "apply_dropout dropout_fn L x"
  have x': "wf_tensor ?x'" "nrows ?x' = nrows x" "ncols ?x' = in_features L"
    using x d by (simp_all add: apply_dropout_def)
  have jo: "j < out_features L" using j by linarith
  have wfa: "wf_tensor after_A" using wf_linear[OF fin(1) x'(1)] A'(2) eq by simp
  have sha: "nrows after_A = nrows x" using F_linear_shape[OF fin(1)] x'(2) by simp
  have Bw: "wf_tensor B" "ncols B = nrows A" "0 < nrows B" "nrows B = out_features L"
    using B' A' eq jo by simp_all
  have x0: "0 < nrows ?x'" using x(3) x'(2) by simp
  obtain u where u: "lora_branch dropout_fn L x = Inr u" "nrows u = nrows after_A" "ncols u = nrows B"
    and uent: "\<forall>i<nrows after_A. \<forall>j<nrows B.
       entry u i j = fmul (dot (elems B ! j) (elems after_A ! i)) (round32 s)"
    using lora_branch_entry[OF A B Bw(1,2,3) s x'(1) x0 fin(1) wfa] by blast
  have "entry u i j = Fin 0" if i: "i < nrows x" for i
  proof -
    have "list_all is_finite (elems after_A ! i)"
      using fin(2) i sha wfa by (simp add: finite_tensor_def list_all_length wf_tensor_rows)
    then have "\<forall>y\<in>set (elems after_A ! i). is_finite y" by (simp add: list_all_iff)
    then have "dot (elems B ! j) (elems after_A ! i) = Fin 0"
      using dot_zero_left[OF z] by simp
    then show ?thesis
      using uent i sha jo Bw(4) fin(3) by (simp add: fmul_zero_left)
  qed
  then show ?thesis using u sha Bw(4) by auto
qed

theorem disabled_partition_zero_rows_witness:
  "layer_inv (example_layer\<lparr>lora_B := Some (Tensor 3 1 [[Fin 1], [Fin 0], [Fin 1]])\<rparr>) \<and>
   F_linear (Tensor 1 2 [[Fin 1, Fin 1]]) (Tensor 1 2 [[Fin 1, Fin 2]]) None =
     Inr (Tensor 1 1 [[Fin 3]]) \<and>
   (\<exists>u. lora_branch id (example_layer\<lparr>lora_B := Some (Tensor 3 1 [[Fin 1], [Fin 0], [Fin 1]])\<rparr>)
          (Tensor 1 2 [[Fin 1, Fin 1]]) = Inr u \<and> entry u 0 1 = Fin 0)"
proof -
  let ?B = "Tensor 3 1 [[Fin 1], [Fin 0], [Fin 1]]"
  let ?A = "Tensor 1 2 [[Fin 1, Fin 2]]"
  let ?L = "example_layer\<lparr>lora_B := Some ?B\<rparr>"
  let ?x = "Tensor 1 2 [[Fin 1, Fin 1]]"
  have h1: "layer_inv ?L"
    by (simp add: example_layer_def layer_inv_def wf_tensor_def any_of_def)
  have h2: "enable_lora ?L = [True, False, True]" "r ?L > 0"
    "lora_A ?L = Some ?A" "lora_B ?L = Some ?B" "scaling ?L = Some 2"
    by (simp_all add: example_layer_def)
  have h3: "wf_tensor ?x" "ncols ?x = in_features ?L" "0 < nrows ?x"
    by (simp_all add: example_layer_def wf_tensor_def)
  have h4: "wf_tensor (id ?x)" "nrows (id ?x) = nrows ?x" "ncols (id ?x) = ncols ?x"
    by (simp_all add: wf_tensor_def)
  have a: "F_linear ?x ?A None = Inr (Tensor 1 1 [[Fin 3]])"
    by code_simp
  have "apply_dropout id ?L ?x = ?x" by (simp add: apply_dropout_def)
  then have h5: "F_linear (apply_dropout id ?L ?x) ?A None = Inr (Tensor 1 1 [[Fin 3]])"
    using a by simp
  have h6: "finite_tensor (Tensor 1 1 [[Fin 3]])"
    by (simp add: finite_tensor_def)
  have h7: "is_finite (round32 2)"
    by code_simp
  have h8: "out_features ?L div 3 \<le> 1" "1 < 2 * (out_features ?L div 3)"
    by (simp_all add: example_layer_def)
  have h9: "\<forall>v\<in>set (elems ?B ! 1). v = Fin 0"
    by simp
  show ?thesis
    using h1 a
      disabled_partition_zero_rows[where dropout_fn = id and j = 1,
        OF h1 h2 h3 h4 h5 h6 h7 h8 h9]
    by auto
qed

text \<open>
  Where the input has an infinite entry, a zero row of \<open>lora_B\<close> contributes a NaN: the
  product of zero and infinity.
\<close>

lemma zero_row_infinite_input:
  "lora_branch id (example_layer\<lparr>lora_B := Some (Tensor 3 1 [[Fin 1], [Fin 0], [Fin 1]])\<rparr>)
     (Tensor 1 2 [[PInf, Fin 1]]) = Inr (Tensor 1 3 [[PInf, NaN, PInf]])"
  by code_simp

text \<open>
  Claim C6 at a layer of positive rank with no partition enabled: the constructor sets no
  \<open>lora_A\<close>, and \<^verbatim>\<open>forward\<close>, which tests \<^verbatim>\<open>self.r > 0\<close> alone, reads it. (For a
  rank that is not positive, and for a merged layer, \<^verbatim>\<open>forward\<close> is the plain
  projection: \<open>forward_plain\<close>.)
\<close>

theorem forward_fails_without_partition:
  "init 1 1 1 1 0 [False] False True False draw_weight draw_bias draw_A = Inr no_partition_layer \<and>
   r no_partition_layer > 0 \<and> \<not> any_of (enable_lora no_partition_layer) \<and>
   F_linear (Tensor 1 1 [[Fin 1]]) (T no_partition_layer (weight no_partition_layer))
     (bias no_partition_layer) = Inr (Tensor 1 1 [[Fin 2]]) \<and>
   forward id no_partition_layer (Tensor 1 1 [[Fin 1]]) = Inl AttributeError"
  by code_simp

section \<open>Marking the trainable parameters: facts\<close>

lemma distinct_snd_unique:
  "distinct (map snd ps) \<Longrightarrow> (a, p) \<in> set ps \<Longrightarrow> (b, p) \<in> set ps \<Longrightarrow> a = b"
  by (induction ps) (auto simp: image_iff)

lemma freeze_loop_False: "\<not> g q \<Longrightarrow> \<not> freeze_loop ps g q"
  by (induction ps g rule: freeze_loop.induct) auto

lemma freeze_loop_frozen:
  "(n, p) \<in> set ps \<Longrightarrow> \<not> contains n ''lora_'' \<Longrightarrow> \<not> freeze_loop ps g p"
  by (induction ps g rule: freeze_loop.induct) (auto simp: freeze_loop_False)

lemma freeze_loop_other:
  "\<forall>n. (n, q) \<in> set ps \<longrightarrow> contains n ''lora_'' \<Longrightarrow> freeze_loop ps g q = g q"
  by (induction ps g rule: freeze_loop.induct) auto

lemma mark_none:
  "mark_only_lora_as_trainable M ''none'' =
     (None, M\<lparr>requires_grad := freeze_loop (named_parameters M) (requires_grad M)\<rparr>)"
  by (simp add: mark_only_lora_as_trainable_def)

text \<open>
  Claim C9, as the code has it. After \<^verbatim>\<open>mark_only_lora_as_trainable(model, 'none')\<close> a
  parameter whose name lacks \<^verbatim>\<open>'lora_'\<close> is not trainable, and a parameter whose name
  has it keeps the flag it had: the function freezes and never unfreezes. Each parameter
  has one name, as \<^verbatim>\<open>named_parameters()\<close> lists it.
\<close>

theorem mark_none_trainable:
  assumes "distinct (map snd (named_parameters M))"
    and "(n, p) \<in> set (named_parameters M)"
  shows "fst (mark_only_lora_as_trainable M ''none'') = None \<and>
         requires_grad (snd (mark_only_lora_as_trainable M ''none'')) p =
           (contains n ''lora_'' \<and> requires_grad M p)"
proof (cases "contains n ''lora_''")
  case False
  have "\<not> freeze_loop (named_parameters M) (requires_grad M) p"
    using freeze_loop_frozen[OF assms(2) False] .
  then show ?thesis using False by (simp add: mark_none)
next
  case True
  have "\<forall>n'. (n', p) \<in> set (named_parameters M) \<longrightarrow> contains n' ''lora_''"
  proof (intro allI impI)
    fix n' assume "(n', p) \<in> set (named_parameters M)"
    then have "n' = n" by (rule distinct_snd_unique[OF assms(1) _ assms(2)])
    then show "contains n' ''lora_''" using True by simp
  qed
  then have "freeze_loop (named_parameters M) (requires_grad M) p = requires_grad M p"
    by (rule freeze_loop_other)
  then show ?thesis using True by (simp add: mark_none)
qed

theorem mark_none_trainable_witness:
  "distinct (map snd (named_parameters frozen_model)) \<and>
   (''c_attn.lora_B'', 2) \<in> set (named_parameters frozen_model) \<and>
   (''c_attn.weight'', 0) \<in> set (named_parameters frozen_model) \<and>
   requires_grad (snd (mark_only_lora_as_trainable frozen_model ''none'')) 2 \<and>
   \<not> requires_grad (snd (mark_only_lora_as_trainable frozen_model ''none'')) 0"
proof -
  have h1: "distinct (map snd (named_parameters frozen_model))"
    by (simp add: frozen_model_def)
  have h2: "(''c_attn.lora_B'', 2) \<in> set (named_parameters frozen_model)"
    by (simp add: frozen_model_def)
  have h3: "(''c_attn.weight'', 0) \<in> set (named_parameters frozen_model)"
    by (simp add: frozen_model_def)
  have c: "contains ''c_attn.lora_B'' ''lora_''" "\<not> contains ''c_attn.weight'' ''lora_''"
    "requires_grad frozen_model 2"
    by (simp_all add: frozen_model_def)
  show ?thesis
    using h1 h2 h3 c mark_none_trainable[OF h1 h2] mark_none_trainable[OF h1 h3] by simp
qed

text \<open>
  Claim C9 as stated fails: a factor that was frozen before the call is still frozen after
  it.
\<close>

theorem frozen_factor_stays_frozen:
  "(''c_attn.lora_A'', 1) \<in> set (named_parameters frozen_model) \<and>
   contains ''c_attn.lora_A'' ''lora_'' \<and>
   fst (mark_only_lora_as_trainable frozen_model ''none'') = None \<and>
   \<not> requires_grad (snd (mark_only_lora_as_trainable frozen_model ''none'')) 1"
  by code_simp

section \<open>Selecting the entries of a checkpoint: facts\<close>

lemma map_of_absent: "x \<notin> fst ` set d \<Longrightarrow> map_of d x = None"
  by (simp add: map_of_eq_None_iff)

lemma dict_comp_result:
  "set ks \<subseteq> dom (map_of d) \<Longrightarrow> distinct (map fst acc) \<Longrightarrow>
   \<exists>res. dict_comp P d ks acc = Inr res \<and> distinct (map fst res) \<and>
     map_of res = (\<lambda>k. if k \<in> set ks \<and> P k then map_of d k else map_of acc k)"
proof (induction ks arbitrary: acc)
  case Nil
  then show ?case by simp
next
  case (Cons k ks)
  show ?case
  proof (cases "P k")
    case False
    then show ?thesis using Cons.IH[of acc] Cons.prems by (auto simp: fun_eq_iff)
  next
    case True
    from Cons.prems obtain v where v: "map_of d k = Some v" by auto
    have "distinct (map fst (AList.update k v acc))"
      using Cons.prems(2) by (simp add: distinct_update)
    from Cons.IH[OF _ this] Cons.prems(1) obtain res where
      res: "dict_comp P d ks (AList.update k v acc) = Inr res" "distinct (map fst res)"
        "map_of res = (\<lambda>k'. if k' \<in> set ks \<and> P k' then map_of d k' else map_of (AList.update k v acc) k')"
      by auto
    have "map_of res = (\<lambda>k'. if k' \<in> set (k # ks) \<and> P k' then map_of d k' else map_of acc k')"
      unfolding res(3) using True v by (auto simp: fun_eq_iff update_conv')
    then show ?thesis using res(1,2) True v by simp
  qed
qed

lemma dict_comp_all_keys:
  "\<exists>res. dict_comp P d (map fst d) [] = Inr res \<and> distinct (map fst res) \<and>
     map_of res = map_of d |` {k. P k}"
proof -
  have "set (map fst d) \<subseteq> dom (map_of d)" by (simp add: dom_map_of_conv_image_fst)
  from dict_comp_result[OF this, of "[]" P] obtain res where
    res: "dict_comp P d (map fst d) [] = Inr res" "distinct (map fst res)"
      "map_of res = (\<lambda>k. if k \<in> set (map fst d) \<and> P k then map_of d k else map_of [] k)"
    by auto
  have "map_of res = map_of d |` {k. P k}"
    unfolding res(3) by (auto simp: fun_eq_iff restrict_map_def map_of_absent)
  then show ?thesis using res(1,2) by blast
qed

lemma lora_only_keys_Nil [simp]: "lora_only_keys d [] = {}"
  by (simp add: lora_only_keys_def)

lemma lora_only_keys_skip:
  "\<not> contains k ''lora_'' \<Longrightarrow> lora_only_keys d (k # ks) = lora_only_keys d ks"
  by (auto simp: lora_only_keys_def)

lemma lora_only_keys_factor:
  "contains k ''lora_'' \<Longrightarrow> map_of d (bias_name k) = None \<Longrightarrow>
   lora_only_keys d (k # ks) = insert k (lora_only_keys d ks)"
  by (auto simp: lora_only_keys_def)

lemma lora_only_keys_factor_bias:
  "contains k ''lora_'' \<Longrightarrow> map_of d (bias_name k) = Some bv \<Longrightarrow>
   lora_only_keys d (k # ks) = insert k (insert (bias_name k) (lora_only_keys d ks))"
  by (auto simp: lora_only_keys_def)

lemma lora_only_loop_result:
  "set ks \<subseteq> dom (map_of d) \<Longrightarrow> distinct (map fst acc) \<Longrightarrow>
   \<exists>res. lora_only_loop d ks acc = Inr res \<and> distinct (map fst res) \<and>
     map_of res = (\<lambda>k. if k \<in> lora_only_keys d ks then map_of d k else map_of acc k)"
proof (induction ks arbitrary: acc)
  case Nil
  then show ?case by simp
next
  case (Cons k ks)
  show ?case
  proof (cases "contains k ''lora_''")
    case False
    have "lora_only_loop d (k # ks) acc = lora_only_loop d ks acc"
      using False by simp
    then show ?thesis
      using Cons.IH[of acc] Cons.prems by (simp add: lora_only_keys_skip[OF False])
  next
    case True
    from Cons.prems obtain v where v: "map_of d k = Some v" by auto
    let ?acc1 = "AList.update k v acc"
    have d1: "distinct (map fst ?acc1)" using Cons.prems(2) by (simp add: distinct_update)
    have ks: "set ks \<subseteq> dom (map_of d)" using Cons.prems(1) by simp
    show ?thesis
    proof (cases "map_of d (bias_name k)")
      case None
      from Cons.IH[OF ks d1] obtain res where
        res: "lora_only_loop d ks ?acc1 = Inr res" "distinct (map fst res)"
          "map_of res = (\<lambda>x. if x \<in> lora_only_keys d ks then map_of d x else map_of ?acc1 x)"
        by auto
      have "lora_only_loop d (k # ks) acc = Inr res"
        using True v None res(1) by (simp add: bias_name_def)
      moreover have "map_of res =
          (\<lambda>x. if x \<in> lora_only_keys d (k # ks) then map_of d x else map_of acc x)"
        unfolding res(3) lora_only_keys_factor[OF True None]
        using v by (auto simp: fun_eq_iff update_conv')
      ultimately show ?thesis using res(2) by blast
    next
      case (Some bv)
      let ?acc2 = "AList.update (bias_name k) bv ?acc1"
      have d2: "distinct (map fst ?acc2)" using d1 by (simp add: distinct_update)
      from Cons.IH[OF ks d2] obtain res where
        res: "lora_only_loop d ks ?acc2 = Inr res" "distinct (map fst res)"
          "map_of res = (\<lambda>x. if x \<in> lora_only_keys d ks then map_of d x else map_of ?acc2 x)"
        by auto
      have "lora_only_loop d (k # ks) acc = Inr res"
        using True v Some res(1) by (simp add: bias_name_def)
      moreover have "map_of res =
          (\<lambda>x. if x \<in> lora_only_keys d (k # ks) then map_of d x else map_of acc x)"
        unfolding res(3) lora_only_keys_factor_bias[OF True Some]
        using v Some by (auto simp: fun_eq_iff update_conv')
      ultimately show ?thesis using res(2) by blast
    qed
  qed
qed

lemma lora_only_all_keys:
  "\<exists>res. lora_only_loop d (map fst d) [] = Inr res \<and> distinct (map fst res) \<and>
     map_of res = map_of d |` ({k. contains k ''lora_''} \<union>
        {split_first k ''lora_'' @ ''bias'' | k. k \<in> dom (map_of d) \<and> contains k ''lora_''})"
proof -
  have D: "set (map fst d) = dom (map_of d)" by (simp add: dom_map_of_conv_image_fst)
  then have sub: "set (map fst d) \<subseteq> dom (map_of d)" by simp
  from lora_only_loop_result[OF sub, of "[]"] obtain res where
    res: "lora_only_loop d (map fst d) [] = Inr res" "distinct (map fst res)"
      "map_of res = (\<lambda>x. if x \<in> lora_only_keys d (map fst d) then map_of d x else map_of [] x)"
    by auto
  have "map_of res x = (map_of d |` ({k. contains k ''lora_''} \<union>
        {split_first k ''lora_'' @ ''bias'' | k. k \<in> dom (map_of d) \<and> contains k ''lora_''})) x" for x
  proof (cases "map_of d x")
    case None
    then show ?thesis unfolding res(3) by (simp add: restrict_map_def)
  next
    case (Some a)
    then have "x \<in> dom (map_of d)" by auto
    have "x \<in> lora_only_keys d (map fst d) \<longleftrightarrow> x \<in> {k. contains k ''lora_''} \<union>
        {split_first k ''lora_'' @ ''bias'' | k. k \<in> dom (map_of d) \<and> contains k ''lora_''}"
      using \<open>x \<in> dom (map_of d)\<close> unfolding lora_only_keys_def bias_name_def D
      by blast
    then have "(if x \<in> lora_only_keys d (map fst d) then map_of d x else map_of [] x) =
        (if x \<in> {k. contains k ''lora_''} \<union>
            {split_first k ''lora_'' @ ''bias'' | k. k \<in> dom (map_of d) \<and> contains k ''lora_''}
         then map_of d x else None)"
      by (simp only: map_of.simps)
    then show ?thesis unfolding res(3) restrict_map_def .
  qed
  then have "map_of res = map_of d |` ({k. contains k ''lora_''} \<union>
        {split_first k ''lora_'' @ ''bias'' | k. k \<in> dom (map_of d) \<and> contains k ''lora_''})"
    by (rule ext)
  then show ?thesis using res(1,2) by blast
qed

text \<open>
  For a key \<open>path @ ''lora_'' @ rest\<close> whose \<open>path\<close>, the name of the owning module
  with its dot, does not have \<^verbatim>\<open>'lora_'\<close> itself, the text before the first
  \<^verbatim>\<open>'lora_'\<close> is \<open>path\<close>: the bias looked up is \<open>path @ ''bias''\<close>, the bias of the
  same module.
\<close>

lemma starts_with_append: "starts_with (p @ s) p"
  by (induction p) auto







text \<open>The policy \<^verbatim>\<open>'lora_only'\<close> on the state dict of one attention block.\<close>

lemma lora_state_dict_example:
  "lora_state_dict block_state_dict ''lora_only'' =
   Inr [(''h.0.attn.c_attn.lora_A'', 3), (''h.0.attn.c_attn.bias'', 2),
        (''h.0.attn.c_attn.lora_B'', 4)]"
  by code_simp




section \<open>The context manager: facts\<close>

lemma lora_normal_exit:
  assumes "body (g\<lparr>lora_config := Some \<lparr>config_r = rk, config_alpha = alpha, config_dropout = dropout\<rparr>,
                    llama_CausalSelfAttention := LoRA_CausalSelfAttention\<rparr>) = (None, g3)"
  shows "lora rk alpha dropout True body g =
          (None, g3\<lparr>llama_CausalSelfAttention := llama_CausalSelfAttention g, lora_config := None\<rparr>)"
  using assms by (simp add: lora_def Let_def)

lemma lora_exception_exit:
  assumes "body (g\<lparr>lora_config := Some \<lparr>config_r = rk, config_alpha = alpha, config_dropout = dropout\<rparr>,
                    llama_CausalSelfAttention := LoRA_CausalSelfAttention\<rparr>) = (Some e, g3)"
  shows "lora rk alpha dropout True body g = (Some e, g3)"
  using assms by (simp add: lora_def Let_def)

text \<open>
  Claim C7 at a block that raises: the exception leaves \<^verbatim>\<open>lora\<close> at its \<^verbatim>\<open>yield\<close>,
  the two statements after it do not run, and the name \<^verbatim>\<open>llama.CausalSelfAttention\<close>
  and \<open>lora_config\<close> stay as \<^verbatim>\<open>lora\<close> set them. A block that returns is followed by
  the restoration.
\<close>

theorem lora_not_restored_on_exception:
  "lora 8 16 0 True raising_body initial_globals =
     (Some RuntimeError,
      \<lparr> llama_CausalSelfAttention = LoRA_CausalSelfAttention,
        lora_config = Some \<lparr>config_r = 8, config_alpha = 16, config_dropout = 0\<rparr> \<rparr>) \<and>
   lora 8 16 0 True returning_body initial_globals = (None, initial_globals)"
  by (simp add: lora_def raising_body_def returning_body_def initial_globals_def)

section \<open>Failures\<close>

lemma mark_error_iff:
  "fst (mark_only_lora_as_trainable M p) =
     (if p \<in> {''none'', ''all'', ''lora_only''} then None else Some NotImplementedError)"
  by (simp add: mark_only_lora_as_trainable_def Let_def)

lemma lora_state_dict_error_iff:
  "(\<exists>e. lora_state_dict sd p = Inl e) \<longleftrightarrow> p \<notin> {''none'', ''all'', ''lora_only''}"
proof -
  obtain r1 r2 r3 where "lora_state_dict sd ''none'' = Inr r1" "lora_state_dict sd ''all'' = Inr r2"
    "lora_state_dict sd ''lora_only'' = Inr r3"
    using dict_comp_all_keys[of "\<lambda>k. contains k ''lora_''" sd]
      dict_comp_all_keys[of "\<lambda>k. contains k ''lora_'' \<or> contains k ''bias''" sd]
      lora_only_all_keys[of sd]
    by (auto simp: lora_state_dict_def)
  moreover have "p \<notin> {''none'', ''all'', ''lora_only''} \<Longrightarrow> lora_state_dict sd p = Inl NotImplementedError"
    by (simp add: lora_state_dict_def)
  ultimately show ?thesis by auto
qed

lemma configuration_errors:
  assumes "dropout \<le> 1"
    and "rk > 0 \<and> any_of enable \<Longrightarrow> \<exists>q. py_truediv alpha rk = Inr q"
  shows "((\<exists>e. init n_in n_out rk alpha dropout enable fifo mw use_bias w_rand b_rand a_rand = Inl e)
            \<longleftrightarrow> enable = [] \<or> n_out mod length enable \<noteq> 0) \<and>
         (enable \<noteq> [] \<and> n_out mod length enable \<noteq> 0 \<longrightarrow>
            init n_in n_out rk alpha dropout enable fifo mw use_bias w_rand b_rand a_rand = Inl AssertionError) \<and>
         fst (mark_only_lora_as_trainable M p) =
            (if p \<in> {''none'', ''all'', ''lora_only''} then None else Some NotImplementedError) \<and>
         ((\<exists>e. lora_state_dict sd p = Inl e) \<longleftrightarrow> p \<notin> {''none'', ''all'', ''lora_only''}) \<and>
         (p \<notin> {''none'', ''all'', ''lora_only''} \<longrightarrow> lora_state_dict sd p = Inl NotImplementedError)"
proof -
  have 1: "(\<exists>e. init n_in n_out rk alpha dropout enable fifo mw use_bias w_rand b_rand a_rand = Inl e)
            \<longleftrightarrow> enable = [] \<or> n_out mod length enable \<noteq> 0"
    using assms by (auto simp: init_Inl_iff)
  have 2: "enable \<noteq> [] \<and> n_out mod length enable \<noteq> 0 \<longrightarrow>
            init n_in n_out rk alpha dropout enable fifo mw use_bias w_rand b_rand a_rand = Inl AssertionError"
    using assms by (simp add: init_def)
  have 5: "p \<notin> {''none'', ''all'', ''lora_only''} \<longrightarrow> lora_state_dict sd p = Inl NotImplementedError"
    by (simp add: lora_state_dict_def)
  show ?thesis using 1 2 mark_error_iff[of M p] lora_state_dict_error_iff[of sd p] 5 by blast
qed

text \<open>
  Claim C8 evaluated: 10 outputs and 3 partitions are refused by the assertion, an unknown
  policy by \<^verbatim>\<open>NotImplementedError\<close> in both functions; and a layer of rank 1 with no
  partition enabled, which the constructor accepts, raises \<^verbatim>\<open>AttributeError\<close> in
  \<^verbatim>\<open>forward\<close>, a failure that is neither of the two.
\<close>

theorem failure_modes_evaluated:
  "init 4 10 0 1 0 [True, False, True] False True False draw_weight draw_bias draw_A =
     Inl AssertionError \<and>
   fst (mark_only_lora_as_trainable frozen_model ''some'') = Some NotImplementedError \<and>
   lora_state_dict [(''c_attn.lora_A'', 1 :: nat)] ''some'' = Inl NotImplementedError \<and>
   init 1 1 1 1 0 [False] False True False draw_weight draw_bias draw_A = Inr no_partition_layer \<and>
   forward id no_partition_layer (Tensor 1 1 [[Fin 3]]) = Inl AttributeError"
  by code_simp

end
